theory Spec2Isabelle
  imports Complex_Main "HOL-Library.Word"
begin

unbundle bit_operations_syntax

section \<open>Time strings\<close>

text \<open>
  The RTC service reads times as text. Both \<open>parseTimeString\<close> and
  \<open>getNightSleepDuration\<close> call \<open>std::regex_match\<close>, which accepts a string only
  when the whole string has the shape of the pattern. All patterns of
  \<open>rtc_time_manager.cpp\<close> are of the form
  \<^verbatim>\<open>\d{4}-\d{2}-\d{2}<sep>\d{2}:\d{2}:\d{2}\<close>, nineteen characters, with the
  separator \<open>T\<close> or a blank.
\<close>

definition isdigit :: "char \<Rightarrow> bool" where
  "isdigit c = (48 \<le> (of_char c :: nat) \<and> (of_char c :: nat) \<le> 57)"

definition digit_val :: "char \<Rightarrow> int" where
  "digit_val c = int (of_char c) - 48"

text \<open>\<open>std::stoi\<close> on a string of decimal digits (at most four here, so no overflow).\<close>

definition stoi :: "string \<Rightarrow> int" where
  "stoi ds = foldl (\<lambda>a c. 10 * a + digit_val c) 0 ds"

definition digits_at :: "string \<Rightarrow> nat list \<Rightarrow> bool" where
  "digits_at s ps = list_all (\<lambda>i. isdigit (s ! i)) ps"

text \<open>The common shape; positions are read only when the length is 19.\<close>

definition datetime_shape :: "char \<Rightarrow> string \<Rightarrow> bool" where
  "datetime_shape sep s =
     (length s = 19 \<and>
      digits_at s [0, 1, 2, 3, 5, 6, 8, 9, 11, 12, 14, 15, 17, 18] \<and>
      s ! 4 = CHR ''-'' \<and> s ! 7 = CHR ''-'' \<and> s ! 10 = sep \<and>
      s ! 13 = CHR '':'' \<and> s ! 16 = CHR '':'')"

text \<open>
  \<^verbatim>\<open>(\d{4})-(\d{2})-(\d{2})<sep>(\d{2}):(\d{2}):(\d{2})\<close>: the six capture groups
  of \<open>isoRegex\<close> (separator \<open>T\<close>) and \<open>altRegex\<close> (separator blank).
\<close>

definition dateRegex_match ::
  "char \<Rightarrow> string \<Rightarrow> (string \<times> string \<times> string \<times> string \<times> string \<times> string) option" where
  "dateRegex_match sep s =
     (if datetime_shape sep s
      then Some (take 4 s, take 2 (drop 5 s), take 2 (drop 8 s),
                 take 2 (drop 11 s), take 2 (drop 14 s), take 2 (drop 17 s))
      else None)"

text \<open>
  \<^verbatim>\<open>\d{4}-\d{2}-\d{2}T(\d{2}):(\d{2}):(\d{2})\<close>: \<open>timeRegex\<close> of
  \<open>getNightSleepDuration\<close>, three capture groups; \<open>match[1]\<close> is the hour.
\<close>

definition timeRegex_match :: "string \<Rightarrow> (string \<times> string \<times> string) option" where
  "timeRegex_match s =
     (if datetime_shape (CHR ''T'') s
      then Some (take 2 (drop 11 s), take 2 (drop 14 s), take 2 (drop 17 s))
      else None)"


text \<open>
  A number below 100 as \<open>getCurrentDateTime\<close> prints an hour, a minute or a second:
  two decimal digits, zero-filled.
\<close>

definition two_digits :: "nat \<Rightarrow> string" where
  "two_digits n = [char_of (48 + n div 10), char_of (48 + n mod 10)]"


section \<open>Sleep schedule\<close>

text \<open>
  \<open>SleepSchedule\<close> as \<open>rtc_time_manager.cpp\<close> uses it: the hours are compared with the
  \<open>int\<close> hour read from the time string, the minutes are widened to \<open>uint64_t\<close>
  through a \<open>uint32_t\<close> local.
\<close>

record SleepSchedule =
  nightStartHour :: int
  nightEndHour :: int
  nightSleepMinutes :: "32 word"
  daySleepMinutes :: "32 word"
  enabled :: bool

text \<open>\<open>static_cast<uint64_t>(minutes) * 60 * 1000000ULL\<close>\<close>

definition minutes_to_us :: "32 word \<Rightarrow> 64 word" where
  "minutes_to_us m = ucast m * 60 * 1000000"

definition getNightSleepDuration :: "SleepSchedule \<Rightarrow> string \<Rightarrow> 64 word" where
  "getNightSleepDuration sch currentTime =
     (if \<not> enabled sch then minutes_to_us (daySleepMinutes sch)
      else
        (case timeRegex_match currentTime of
           None \<Rightarrow> minutes_to_us (daySleepMinutes sch)
         | Some (hh, mm, ss) \<Rightarrow>
             (let currentHour = stoi hh;
                  isNight =
                    (if nightStartHour sch > nightEndHour sch
                     then (currentHour \<ge> nightStartHour sch \<or> currentHour < nightEndHour sch)
                     else (currentHour \<ge> nightStartHour sch \<and> currentHour < nightEndHour sch));
                  sleepMinutes = (if isNight then nightSleepMinutes sch else daySleepMinutes sch)
              in minutes_to_us sleepMinutes)))"

text \<open>
  The membership test in the words of the specification (section 4.1): in the wrap case
  night holds when \<open>hour >= nightStart OR hour < nightEnd\<close>, otherwise when
  \<open>nightStart <= hour < nightEnd\<close>.
\<close>

definition spec_is_night :: "int \<Rightarrow> int \<Rightarrow> int \<Rightarrow> bool" where
  "spec_is_night nightStart nightEnd hour =
     (if nightStart > nightEnd then hour \<ge> nightStart \<or> hour < nightEnd
      else nightStart \<le> hour \<and> hour < nightEnd)"

definition night_duration :: "SleepSchedule \<Rightarrow> 64 word" where
  "night_duration sch = minutes_to_us (nightSleepMinutes sch)"

definition day_duration :: "SleepSchedule \<Rightarrow> 64 word" where
  "day_duration sch = minutes_to_us (daySleepMinutes sch)"

text \<open>The default schedule set by the constructor of \<open>RTCTimeManager\<close>.\<close>

definition default_schedule :: SleepSchedule where
  "default_schedule =
     \<lparr>nightStartHour = 22, nightEndHour = 6, nightSleepMinutes = 30,
      daySleepMinutes = 5, enabled = True\<rparr>"


section \<open>The DS1307 clock chip\<close>

text \<open>
  The chip is a file of 64 byte registers behind an I2C bus: the time in registers
  \<open>0x00\<close> to \<open>0x06\<close>, the control register at \<open>0x07\<close> and 56 bytes of battery-backed
  RAM from \<open>0x08\<close> (\<open>DS1307_RAM_START\<close>). A transfer can fail; whether it does is an
  input of each operation. A failed write is taken to leave the registers as they were.
\<close>

type_synonym ds1307 = "nat \<Rightarrow> 8 word"

definition readRegisters :: "bool \<Rightarrow> ds1307 \<Rightarrow> nat \<Rightarrow> nat \<Rightarrow> 8 word list option" where
  "readRegisters ok dev startReg count =
     (if ok then Some (map dev [startReg ..< startReg + count]) else None)"

definition writeRegisters :: "bool \<Rightarrow> nat \<Rightarrow> 8 word list \<Rightarrow> ds1307 \<Rightarrow> bool \<times> ds1307" where
  "writeRegisters ok startReg data dev =
     (if ok
      then (True, \<lambda>a. if startReg \<le> a \<and> a < startReg + length data
                       then data ! (a - startReg) else dev a)
      else (False, dev))"

definition readEEPROM :: "bool \<Rightarrow> ds1307 \<Rightarrow> nat \<Rightarrow> nat \<Rightarrow> 8 word list option" where
  "readEEPROM ok dev address len =
     (if address + len > 56 then None else readRegisters ok dev (8 + address) len)"

definition writeEEPROM :: "bool \<Rightarrow> nat \<Rightarrow> 8 word list \<Rightarrow> ds1307 \<Rightarrow> bool \<times> ds1307" where
  "writeEEPROM ok address data dev =
     (if address + length data > 56 then (False, dev)
      else writeRegisters ok (8 + address) data dev)"

text \<open>\<open>((bcd >> 4) * 10) + (bcd & 0x0F)\<close> and \<open>((dec / 10) << 4) | (dec % 10)\<close>, as \<open>uint8_t\<close>.\<close>

definition bcdToDec :: "8 word \<Rightarrow> 8 word" where
  "bcdToDec bcd = drop_bit 4 bcd * 10 + (bcd AND 0x0F)"

definition decToBcd :: "8 word \<Rightarrow> 8 word" where
  "decToBcd dec = push_bit 4 (dec div 10) OR (dec mod 10)"

text \<open>
  \<open>RTCDateTime\<close>: the seven fields the code reads and writes. They hold what
  \<open>bcdToDec\<close> returns and are passed to \<open>decToBcd\<close>, both \<open>uint8_t\<close>.
\<close>

record RTCDateTime =
  seconds :: "8 word"
  minutes :: "8 word"
  hours :: "8 word"
  dayOfWeek :: "8 word"
  date :: "8 word"
  month :: "8 word"
  year :: "8 word"

text \<open>The registers of a time read, decoded as \<open>readDateTime\<close> does.\<close>

definition decode_time :: "8 word list \<Rightarrow> RTCDateTime" where
  "decode_time data =
     \<lparr>seconds = bcdToDec (data ! 0 AND 0x7F),
      minutes = bcdToDec (data ! 1),
      hours = bcdToDec (data ! 2 AND 0x3F),
      dayOfWeek = bcdToDec (data ! 3),
      date = bcdToDec (data ! 4),
      month = bcdToDec (data ! 5),
      year = bcdToDec (data ! 6)\<rparr>"

definition readDateTime :: "bool \<Rightarrow> ds1307 \<Rightarrow> RTCDateTime option" where
  "readDateTime ok dev =
     (case readRegisters ok dev 0 7 of
        None \<Rightarrow> None
      | Some data \<Rightarrow> Some (decode_time data))"

definition writeDateTime :: "bool \<Rightarrow> RTCDateTime \<Rightarrow> ds1307 \<Rightarrow> bool \<times> ds1307" where
  "writeDateTime ok dateTime dev =
     writeRegisters ok 0
       [decToBcd (seconds dateTime), decToBcd (minutes dateTime), decToBcd (hours dateTime),
        decToBcd (dayOfWeek dateTime), decToBcd (date dateTime), decToBcd (month dateTime),
        decToBcd (year dateTime)] dev"

text \<open>Division and remainder of C++ \<open>int\<close>, which truncate towards zero.\<close>

definition cdiv :: "int \<Rightarrow> int \<Rightarrow> int" where
  "cdiv a b = sgn a * sgn b * (\<bar>a\<bar> div \<bar>b\<bar>)"

definition cmod :: "int \<Rightarrow> int \<Rightarrow> int" where
  "cmod a b = a - b * cdiv a b"

definition calculateDayOfWeek :: "int \<Rightarrow> int \<Rightarrow> int \<Rightarrow> 8 word" where
  "calculateDayOfWeek year0 month0 day =
     (let month = (if month0 < 3 then month0 + 12 else month0);
          year = (if month0 < 3 then year0 - 1 else year0);
          k = cmod year 100;
          j = cdiv year 100;
          h = cmod (day + cdiv (13 * (month + 1)) 5 + k + cdiv k 4 + cdiv j 4 - 2 * j) 7
      in word_of_int (cmod (h + 5) 7 + 1))"

text \<open>The assignments both branches of \<open>parseTimeString\<close> make from the six groups.\<close>

definition fill_dateTime ::
  "string \<times> string \<times> string \<times> string \<times> string \<times> string \<Rightarrow> RTCDateTime" where
  "fill_dateTime g =
     (case g of (y, mo, d, h, mi, s) \<Rightarrow>
        \<lparr>seconds = word_of_int (stoi s),
         minutes = word_of_int (stoi mi),
         hours = word_of_int (stoi h),
         dayOfWeek =
           calculateDayOfWeek (stoi y) (uint (word_of_int (stoi mo) :: 8 word))
             (uint (word_of_int (stoi d) :: 8 word)),
         date = word_of_int (stoi d),
         month = word_of_int (stoi mo),
         year = word_of_int (stoi y - 2000)\<rparr>)"

definition parseTimeString :: "string \<Rightarrow> RTCDateTime option" where
  "parseTimeString timeStr =
     (case dateRegex_match (CHR ''T'') timeStr of
        Some g \<Rightarrow> Some (fill_dateTime g)
      | None \<Rightarrow>
          (case dateRegex_match (CHR '' '') timeStr of
             Some g \<Rightarrow> Some (fill_dateTime g)
           | None \<Rightarrow> None))"

text \<open>
  \<open>calculateDrift\<close>: \<open>int\<close> arithmetic on \<open>uint8_t\<close> fields. Every intermediate value is
  below \<open>2^25\<close>, so the 32-bit arithmetic of the source is exact.
\<close>

definition calculateDrift :: "RTCDateTime \<Rightarrow> RTCDateTime \<Rightarrow> int" where
  "calculateDrift rtcTime actualTime =
     (let rtcSeconds = uint (seconds rtcTime) + uint (minutes rtcTime) * 60 +
                       uint (hours rtcTime) * 3600 + uint (date rtcTime) * 86400;
          actualSeconds = uint (seconds actualTime) + uint (minutes actualTime) * 60 +
                          uint (hours actualTime) * 3600 + uint (date actualTime) * 86400
      in actualSeconds - rtcSeconds)"


section \<open>The RTC time manager\<close>

text \<open>
  Modelled from the spec: the declarations of the members \<open>syncAttempts_\<close>,
  \<open>successfulSyncs_\<close> and \<open>totalDriftSeconds_\<close> are not part of the header in the
  repository (the class declared there is an older one); their widths are those of the
  persisted record of section 6 of the specification, two bytes for each counter and
  four bytes, signed, for the drift. \<open>lastSyncTime_\<close> is the \<open>time_t\<close> of the last
  sync.
\<close>

record RTCTimeManager =
  rtc_initialized :: bool
  hasValidTime :: bool
  lastSyncTime :: int
  syncAttempts :: "16 word"
  successfulSyncs :: "16 word"
  totalDriftSeconds :: "32 word"
  sleepSchedule :: SleepSchedule

text \<open>The state the constructor leaves.\<close>

definition RTCTimeManager_new :: RTCTimeManager where
  "RTCTimeManager_new =
     \<lparr>rtc_initialized = False, hasValidTime = False, lastSyncTime = 0,
      syncAttempts = 0, successfulSyncs = 0, totalDriftSeconds = 0,
      sleepSchedule = default_schedule\<rparr>"

text \<open>The twelve bytes \<open>savePersistedData\<close> prepares.\<close>

definition persisted_bytes :: "RTCTimeManager \<Rightarrow> 8 word list" where
  "persisted_bytes m =
     [0xA5, 0x5A,
      ucast (drop_bit 8 (syncAttempts m) AND 0xFF),
      ucast (syncAttempts m AND 0xFF),
      ucast (drop_bit 8 (successfulSyncs m) AND 0xFF),
      ucast (successfulSyncs m AND 0xFF),
      ucast (drop_bit 24 (totalDriftSeconds m) AND 0xFF),
      ucast (drop_bit 16 (totalDriftSeconds m) AND 0xFF),
      ucast (drop_bit 8 (totalDriftSeconds m) AND 0xFF),
      ucast (totalDriftSeconds m AND 0xFF),
      0, 0]"

definition savePersistedData :: "bool \<Rightarrow> RTCTimeManager \<Rightarrow> ds1307 \<Rightarrow> ds1307" where
  "savePersistedData ok m dev = snd (writeEEPROM ok 0 (persisted_bytes m) dev)"

definition loadPersistedData :: "bool \<Rightarrow> ds1307 \<Rightarrow> RTCTimeManager \<Rightarrow> RTCTimeManager" where
  "loadPersistedData ok dev m =
     (case readEEPROM ok dev 0 12 of
        None \<Rightarrow> m
      | Some data \<Rightarrow>
          (if data ! 0 = 0xA5 \<and> data ! 1 = 0x5A
           then m\<lparr>syncAttempts := push_bit 8 (ucast (data ! 2)) OR ucast (data ! 3),
                  successfulSyncs := push_bit 8 (ucast (data ! 4)) OR ucast (data ! 5),
                  totalDriftSeconds :=
                    push_bit 24 (ucast (data ! 6)) OR push_bit 16 (ucast (data ! 7)) OR
                    push_bit 8 (ucast (data ! 8)) OR ucast (data ! 9)\<rparr>
           else m))"

text \<open>The single-register transfers \<open>initialize\<close> uses.\<close>

definition readRegister :: "bool \<Rightarrow> ds1307 \<Rightarrow> nat \<Rightarrow> 8 word option" where
  "readRegister ok dev reg = (if ok then Some (dev reg) else None)"

definition writeRegister :: "bool \<Rightarrow> nat \<Rightarrow> 8 word \<Rightarrow> ds1307 \<Rightarrow> bool \<times> ds1307" where
  "writeRegister ok reg v dev = (if ok then (True, dev(reg := v)) else (False, dev))"

text \<open>
  The text \<open>getCurrentDateTime\<close> prints: decimal numbers (all below 10000 here: a year
  from 2000 to 2255 and fields of one byte), zero-filled to the width set by
  \<open>std::setw\<close>; a number with more digits than the width is printed in full.
\<close>

definition digit_char :: "nat \<Rightarrow> char" where
  "digit_char k = ''0123456789'' ! k"

definition to_string :: "nat \<Rightarrow> string" where
  "to_string n =
     (if n < 10 then [digit_char n]
      else if n < 100 then [digit_char (n div 10), digit_char (n mod 10)]
      else if n < 1000
      then [digit_char (n div 100), digit_char (n div 10 mod 10), digit_char (n mod 10)]
      else [digit_char (n div 1000 mod 10), digit_char (n div 100 mod 10),
            digit_char (n div 10 mod 10), digit_char (n mod 10)])"

definition setw_fill :: "nat \<Rightarrow> string \<Rightarrow> string" where
  "setw_fill w s = replicate (w - length s) (CHR ''0'') @ s"

definition format_dateTime :: "RTCDateTime \<Rightarrow> string" where
  "format_dateTime dt =
     setw_fill 4 (to_string (2000 + unat (year dt))) @ ''-'' @
     setw_fill 2 (to_string (unat (month dt))) @ ''-'' @
     setw_fill 2 (to_string (unat (date dt))) @ ''T'' @
     setw_fill 2 (to_string (unat (hours dt))) @ '':'' @
     setw_fill 2 (to_string (unat (minutes dt))) @ '':'' @
     setw_fill 2 (to_string (unat (seconds dt)))"

definition getCurrentDateTime :: "bool \<Rightarrow> RTCTimeManager \<Rightarrow> ds1307 \<Rightarrow> string" where
  "getCurrentDateTime ok m dev =
     (if \<not> rtc_initialized m then []
      else
        (case readDateTime ok dev of
           None \<Rightarrow> []
         | Some dateTime \<Rightarrow> format_dateTime dateTime))"

text \<open>\<open>isValidTime\<close>: the shape, the ranges, and the rejection of the unset date.\<close>

definition isValidTime :: "string \<Rightarrow> bool" where
  "isValidTime timeStr =
     (case dateRegex_match (CHR ''T'') timeStr of
        None \<Rightarrow> False
      | Some (y, mo, d, h, mi, s) \<Rightarrow>
          (if stoi y < 2000 \<or> stoi y > 2099 then False
           else if stoi mo < 1 \<or> stoi mo > 12 then False
           else if stoi d < 1 \<or> stoi d > 31 then False
           else if stoi h < 0 \<or> stoi h > 23 then False
           else if stoi mi < 0 \<or> stoi mi > 59 then False
           else if stoi s < 0 \<or> stoi s > 59 then False
           else if stoi y = 2000 \<and> stoi mo = 1 \<and> stoi d = 1 then False
           else True))"

text \<open>
  What \<open>initialize\<close> meets on the bus, one flag for each transfer it makes, in order.
  The request to the power manager for the 5V supply and the error text are left out:
  they do not touch the members modelled here.
\<close>

record init_env =
  i2c_ok :: bool
  connected :: bool
  seconds_read_ok :: bool
  start_write_ok :: bool
  control_write_ok :: bool
  time_read_ok :: bool
  stats_read_ok :: bool

text \<open>
  \<open>initialize\<close>. The current time is asked of \<open>getCurrentDateTime\<close> before
  \<open>initialized_\<close> is set, which happens only at the end.
\<close>

definition initialize ::
  "init_env \<Rightarrow> RTCTimeManager \<times> ds1307 \<Rightarrow> bool \<times> RTCTimeManager \<times> ds1307" where
  "initialize ie st =
     (case st of (m, dev) \<Rightarrow>
        if rtc_initialized m then (True, m, dev)
        else if \<not> i2c_ok ie then (False, m, dev)
        else if \<not> connected ie then (False, m, dev)
        else
          (case readRegister (seconds_read_ok ie) dev 0 of
             None \<Rightarrow> (False, m, dev)
           | Some secs \<Rightarrow>
               (case (if secs AND 0x80 \<noteq> 0
                      then writeRegister (start_write_ok ie) 0 (secs AND 0x7F) dev
                      else (True, dev)) of
                  (False, dev1) \<Rightarrow> (False, m, dev1)
                | (True, dev1) \<Rightarrow>
                    (let dev2 = snd (writeRegister (control_write_ok ie) 7 0x00 dev1);
                         currentTime = getCurrentDateTime (time_read_ok ie) m dev2;
                         m1 = (if currentTime \<noteq> []
                               then m\<lparr>hasValidTime := isValidTime currentTime\<rparr> else m);
                         m2 = loadPersistedData (stats_read_ok ie) dev2 m1
                     in (True, m2\<lparr>rtc_initialized := True\<rparr>, dev2)))))"

text \<open>
  What a call of \<open>setTimeFromNetwork\<close> meets outside the manager: whether the read of
  the time registers, the write of the new time and the write of the statistics
  succeed on the bus, and the reading of \<open>std::time\<close>.
\<close>

record sync_env =
  read_ok :: bool
  write_ok :: bool
  save_ok :: bool
  now :: int

definition setTimeFromNetwork ::
  "sync_env \<Rightarrow> string \<Rightarrow> RTCTimeManager \<times> ds1307 \<Rightarrow> bool \<times> RTCTimeManager \<times> ds1307" where
  "setTimeFromNetwork env networkTime st =
     (case st of (m, dev) \<Rightarrow>
        if \<not> rtc_initialized m then (False, m, dev)
        else
          (case parseTimeString networkTime of
             None \<Rightarrow> (False, m, dev)
           | Some newTime \<Rightarrow>
               (let currentTime = (if hasValidTime m then readDateTime (read_ok env) dev else None)
                in case writeDateTime (write_ok env) newTime dev of
                     (False, dev1) \<Rightarrow> (False, m, dev1)
                   | (True, dev1) \<Rightarrow>
                       (let m1 = (case currentTime of
                                    None \<Rightarrow> m
                                  | Some cur \<Rightarrow>
                                      m\<lparr>totalDriftSeconds := totalDriftSeconds m +
                                           word_of_int \<bar>calculateDrift cur newTime\<bar>\<rparr>);
                            m2 = m1\<lparr>lastSyncTime := now env,
                                    syncAttempts := syncAttempts m1 + 1,
                                    successfulSyncs := successfulSyncs m1 + 1,
                                    hasValidTime := True\<rparr>
                        in (True, m2, savePersistedData (save_ok env) m2 dev1)))))"

text \<open>
  A sequence of sync attempts. Between two calls the clock runs: each call finds the
  time registers as its \<open>clock\<close> gives them (registers 0 to 6), the RAM as the last
  call left it.
\<close>

record sync_call =
  timeString :: string
  clock :: "nat \<Rightarrow> 8 word"
  env :: sync_env

definition set_clock :: "(nat \<Rightarrow> 8 word) \<Rightarrow> ds1307 \<Rightarrow> ds1307" where
  "set_clock c dev = (\<lambda>a. if a < 7 then c a else dev a)"

fun sync_run ::
  "sync_call list \<Rightarrow> RTCTimeManager \<times> ds1307 \<Rightarrow> bool list \<times> RTCTimeManager \<times> ds1307" where
  "sync_run [] st = ([], st)"
| "sync_run (c # cs) st =
     (case setTimeFromNetwork (env c) (timeString c) (fst st, set_clock (clock c) (snd st)) of
        (r, st1) \<Rightarrow> (case sync_run cs st1 of (rs, st2) \<Rightarrow> (r # rs, st2)))"

text \<open>
  The drift in the words of the specification (section 4.2): the linear difference of
  seconds + minutes * 60 + hours * 3600 + day * 86400 between the new time and the
  hardware time, month and year ignored.
\<close>

definition spec_linear_seconds :: "RTCDateTime \<Rightarrow> int" where
  "spec_linear_seconds t =
     uint (seconds t) + uint (minutes t) * 60 + uint (hours t) * 3600 + uint (date t) * 86400"

definition spec_drift :: "sync_call \<Rightarrow> int" where
  "spec_drift c =
     (case parseTimeString (timeString c) of
        None \<Rightarrow> 0
      | Some newTime \<Rightarrow>
          spec_linear_seconds newTime - spec_linear_seconds (decode_time (map (clock c) [0 ..< 7])))"

text \<open>A sequence of bytes read as one big-endian number.\<close>

definition be_word :: "8 word list \<Rightarrow> 'a::len word" where
  "be_word bs = foldl (\<lambda>acc b. push_bit 8 acc OR ucast b) 0 bs"


section \<open>The power manager\<close>

text \<open>
  \<open>PeripheralConfig\<close> and \<open>PowerConfig\<close> of \<open>power_manager.h\<close>. The two battery
  thresholds are \<open>float\<close>s that the code only compares; a comparison of finite floats
  is the comparison of the numbers they stand for, so they are reals here.
\<close>

record PeripheralConfig =
  wifi :: bool
  bluetooth :: bool
  cellular :: bool
  sdcard :: bool
  sensors :: bool
  external5V :: bool
  rtc :: bool
  watchdog :: bool

record PowerConfig =
  maxSleepDuration :: "64 word"
  minSleepDuration :: "64 word"
  lowBatteryThreshold :: real
  criticalBatteryThreshold :: real
  emergencyShutdownEnabled :: bool
  watchdogTimeoutMs :: "32 word"
  wakeupPin :: int
  wakeupPinLevel :: bool

text \<open>
  \<open>PowerStats\<close>: the fields the sleep operations write. The totals are filled in by
  \<open>getPowerStats\<close> from the accumulated counters of the controller; the two \<open>float\<close>
  fields (average sleep duration and duty cycle, which \<open>updateDutyCycle\<close> refreshes)
  are read by no decision of the controller and are left out.
\<close>

record PowerStats =
  sleepCycles :: "32 word"
  wakeupEvents :: "32 word"
  lastWakeupCause :: string
  lastResetReason :: string

datatype WakeupCause =
  Wake_UNDEFINED | Wake_ALL | Wake_EXT0 | Wake_EXT1 | Wake_TIMER | Wake_TOUCHPAD |
  Wake_ULP | Wake_GPIO | Wake_UART | Wake_UNKNOWN

fun wakeupCauseToString :: "WakeupCause \<Rightarrow> string" where
  "wakeupCauseToString Wake_UNDEFINED = ''Undefined/first boot''"
| "wakeupCauseToString Wake_ALL = ''All wakeup sources''"
| "wakeupCauseToString Wake_EXT0 = ''External signal (EXT0)''"
| "wakeupCauseToString Wake_EXT1 = ''External signal (EXT1)''"
| "wakeupCauseToString Wake_TIMER = ''Timer wakeup''"
| "wakeupCauseToString Wake_TOUCHPAD = ''Touchpad wakeup''"
| "wakeupCauseToString Wake_ULP = ''ULP program''"
| "wakeupCauseToString Wake_GPIO = ''GPIO wakeup''"
| "wakeupCauseToString Wake_UART = ''UART wakeup''"
| "wakeupCauseToString Wake_UNKNOWN = ''Unknown wakeup''"

text \<open>
  What the controller asks of the hardware, in the order it asks: the calls of
  \<open>set5VSupply\<close>, of \<open>controlPeripheralPower\<close>, the settle wait, the watchdog service,
  the GPIO preparation, the timer wakeup and the platform sleep primitives.
\<close>

datatype hw_event =
  Supply5V bool
| SettleWait nat
| PeripheralPower string bool
| WatchdogReset
| GpioSleepConfig
| TimerWakeup "64 word"
| DeepSleep "64 word"

text \<open>
  The members of \<open>PowerManager\<close> the modelled operations read or write, the build flag
  \<open>ESP32_PLATFORM\<close> (\<open>esp32\<close>) and the trace of hardware requests. Time points of the
  steady clock are microsecond counts.
\<close>

record PowerManager =
  esp32 :: bool
  pm_initialized :: bool
  peripheralConfig :: PeripheralConfig
  powerConfig :: PowerConfig
  powerStats :: PowerStats
  emergencyMode :: bool
  lastSleepTime :: "64 word"
  lastWakeTime :: "64 word"
  accumulatedSleepTime :: "64 word"
  accumulatedActiveTime :: "64 word"
  watchdogHandle :: bool
  events :: "hw_event list"

definition MIN_SLEEP_DURATION :: "64 word" where
  "MIN_SLEEP_DURATION = 1000000"

definition MAX_SLEEP_DURATION :: "64 word" where
  "MAX_SLEEP_DURATION = 3600000000"

definition EMERGENCY_SLEEP_DURATION :: "64 word" where
  "EMERGENCY_SLEEP_DURATION = 3600000000"

definition WAKEUP_TIMER :: "32 word" where
  "WAKEUP_TIMER = 0x01"

definition emit :: "hw_event \<Rightarrow> PowerManager \<Rightarrow> PowerManager" where
  "emit e s = s\<lparr>events := events s @ [e]\<rparr>"

definition set5VSupply :: "bool \<Rightarrow> PowerManager \<Rightarrow> PowerManager" where
  "set5VSupply en s =
     (emit (Supply5V en) s)\<lparr>peripheralConfig := (peripheralConfig s)\<lparr>external5V := en\<rparr>\<rparr>"

text \<open>
  \<open>controlPeripheralPower\<close>. In the ESP32 build the branches for wifi, bluetooth and
  cellular return before the configuration is updated. No caller reads the result.
\<close>

definition controlPeripheralPower :: "string \<Rightarrow> bool \<Rightarrow> PowerManager \<Rightarrow> PowerManager" where
  "controlPeripheralPower peripheral en s =
     (let s1 = emit (PeripheralPower peripheral en) s;
          c = peripheralConfig s1
      in if esp32 s \<and> (peripheral = ''wifi'' \<or> peripheral = ''bluetooth'' \<or>
                         peripheral = ''cellular'')
         then s1
         else if peripheral = ''wifi'' then s1\<lparr>peripheralConfig := c\<lparr>wifi := en\<rparr>\<rparr>
         else if peripheral = ''bluetooth'' then s1\<lparr>peripheralConfig := c\<lparr>bluetooth := en\<rparr>\<rparr>
         else if peripheral = ''cellular'' then s1\<lparr>peripheralConfig := c\<lparr>cellular := en\<rparr>\<rparr>
         else if peripheral = ''sdcard'' then s1\<lparr>peripheralConfig := c\<lparr>sdcard := en\<rparr>\<rparr>
         else if peripheral = ''sensors'' then s1\<lparr>peripheralConfig := c\<lparr>sensors := en\<rparr>\<rparr>
         else s1)"

definition enablePeripherals :: "PowerManager \<Rightarrow> PowerManager" where
  "enablePeripherals s =
     (if \<not> pm_initialized s then s
      else
        (let s1 = set5VSupply True s;
             s2 = emit (SettleWait 1000) s1;
             s3 = (if wifi (peripheralConfig s2) then controlPeripheralPower ''wifi'' True s2 else s2);
             s4 = (if bluetooth (peripheralConfig s3)
                   then controlPeripheralPower ''bluetooth'' True s3 else s3);
             s5 = (if cellular (peripheralConfig s4)
                   then controlPeripheralPower ''cellular'' True s4 else s4);
             s6 = (if sdcard (peripheralConfig s5)
                   then controlPeripheralPower ''sdcard'' True s5 else s5);
             s7 = (if sensors (peripheralConfig s6)
                   then controlPeripheralPower ''sensors'' True s6 else s6)
         in s7))"

definition disablePeripherals :: "PowerManager \<Rightarrow> PowerManager" where
  "disablePeripherals s =
     (if \<not> pm_initialized s then s
      else
        (let s1 = (if sensors (peripheralConfig s)
                   then controlPeripheralPower ''sensors'' False s else s);
             s2 = (if sdcard (peripheralConfig s1)
                   then controlPeripheralPower ''sdcard'' False s1 else s1);
             s3 = (if cellular (peripheralConfig s2)
                   then controlPeripheralPower ''cellular'' False s2 else s2);
             s4 = (if bluetooth (peripheralConfig s3)
                   then controlPeripheralPower ''bluetooth'' False s3 else s3);
             s5 = (if wifi (peripheralConfig s4)
                   then controlPeripheralPower ''wifi'' False s4 else s4)
         in set5VSupply False s5))"

definition configurePeripherals :: "PeripheralConfig \<Rightarrow> PowerManager \<Rightarrow> PowerManager" where
  "configurePeripherals config s =
     (let s1 = (if wifi config \<noteq> wifi (peripheralConfig s)
                then controlPeripheralPower ''wifi'' (wifi config) s else s);
          s2 = (if bluetooth config \<noteq> bluetooth (peripheralConfig s1)
                then controlPeripheralPower ''bluetooth'' (bluetooth config) s1 else s1);
          s3 = (if cellular config \<noteq> cellular (peripheralConfig s2)
                then controlPeripheralPower ''cellular'' (cellular config) s2 else s2);
          s4 = (if sdcard config \<noteq> sdcard (peripheralConfig s3)
                then controlPeripheralPower ''sdcard'' (sdcard config) s3 else s3);
          s5 = (if sensors config \<noteq> sensors (peripheralConfig s4)
                then controlPeripheralPower ''sensors'' (sensors config) s4 else s4);
          s6 = (if external5V config \<noteq> external5V (peripheralConfig s5)
                then set5VSupply (external5V config) s5 else s5)
      in s6\<lparr>peripheralConfig := config\<rparr>)"

definition validateSleepDuration :: "PowerConfig \<Rightarrow> 64 word \<Rightarrow> 64 word" where
  "validateSleepDuration cfg sleepTimeUs =
     (if sleepTimeUs < minSleepDuration cfg then minSleepDuration cfg
      else if sleepTimeUs > maxSleepDuration cfg then maxSleepDuration cfg
      else sleepTimeUs)"

definition resetWatchdog :: "PowerManager \<Rightarrow> PowerManager" where
  "resetWatchdog s =
     (if watchdogHandle s \<and> watchdogTimeoutMs (powerConfig s) > 0
      then emit WatchdogReset s else s)"

definition prepareSleep :: "bool \<Rightarrow> PowerManager \<Rightarrow> PowerManager" where
  "prepareSleep deepSleep s =
     (let s1 = resetWatchdog s
      in if deepSleep then emit GpioSleepConfig s1 else s1)"

text \<open>\<open>updatePowerStats("wakeup", 0)\<close>, the only call that changes the state.\<close>

definition updatePowerStats_wakeup :: "PowerManager \<Rightarrow> PowerManager" where
  "updatePowerStats_wakeup s =
     s\<lparr>powerStats := (powerStats s)\<lparr>wakeupEvents := wakeupEvents (powerStats s) + 1\<rparr>\<rparr>"

definition restoreFromSleep :: "bool \<Rightarrow> WakeupCause \<Rightarrow> PowerManager \<Rightarrow> PowerManager" where
  "restoreFromSleep fromDeepSleep cause s =
     (let s1 = (if watchdogTimeoutMs (powerConfig s) > 0 then resetWatchdog s else s);
          s2 = (if fromDeepSleep
                then s1\<lparr>powerStats := (powerStats s1)\<lparr>lastWakeupCause := wakeupCauseToString cause\<rparr>\<rparr>
                else s1)
      in updatePowerStats_wakeup s2)"

text \<open>
  What a sleep meets outside the controller: the steady clock when the sleep is
  entered and when the device is awake again, and the wakeup cause the platform
  reports.
\<close>

record sleep_env =
  at_sleep :: "64 word"
  at_wake :: "64 word"
  reported_cause :: WakeupCause

text \<open>
  \<open>enterDeepSleep\<close>. The platform primitive is a request after which control continues
  with the code "that runs after waking up", as in the development build and as the
  specification describes the power-cycle boundary.
\<close>

definition enterDeepSleep ::
  "sleep_env \<Rightarrow> 64 word \<Rightarrow> 32 word \<Rightarrow> PowerManager \<Rightarrow> PowerManager" where
  "enterDeepSleep ev sleepTimeUs0 wakeupSources s =
     (if \<not> pm_initialized s then s
      else
        (let sleepTimeUs = validateSleepDuration (powerConfig s) sleepTimeUs0;
             s1 = s\<lparr>lastSleepTime := at_sleep ev\<rparr>;
             activeDuration = lastSleepTime s1 - lastWakeTime s1;
             s2 = s1\<lparr>accumulatedActiveTime := accumulatedActiveTime s1 + activeDuration,
                     powerStats := (powerStats s1)\<lparr>sleepCycles := sleepCycles (powerStats s1) + 1\<rparr>\<rparr>;
             s3 = prepareSleep True s2;
             s4 = (if wakeupSources AND WAKEUP_TIMER \<noteq> 0
                   then emit (TimerWakeup sleepTimeUs) s3 else s3);
             s5 = emit (DeepSleep sleepTimeUs) s4;
             s6 = s5\<lparr>lastWakeTime := at_wake ev,
                     accumulatedSleepTime := accumulatedSleepTime s5 + sleepTimeUs,
                     powerStats := (powerStats s5)\<lparr>wakeupEvents := wakeupEvents (powerStats s5) + 1\<rparr>\<rparr>
         in restoreFromSleep True (reported_cause ev) s6))"

definition enterSleep :: "sleep_env \<Rightarrow> 64 word \<Rightarrow> PowerManager \<Rightarrow> PowerManager" where
  "enterSleep ev sleepTimeUs s = enterDeepSleep ev sleepTimeUs WAKEUP_TIMER s"

definition emergencyConfig :: PeripheralConfig where
  "emergencyConfig =
     \<lparr>wifi = False, bluetooth = False, cellular = False, sdcard = False, sensors = False,
      external5V = False, rtc = True, watchdog = True\<rparr>"

definition enterEmergencyMode :: "sleep_env \<Rightarrow> string \<Rightarrow> PowerManager \<Rightarrow> PowerManager" where
  "enterEmergencyMode ev reason s =
     (if emergencyMode s then s
      else
        (let s1 = s\<lparr>emergencyMode := True\<rparr>;
             s2 = configurePeripherals emergencyConfig s1
         in enterDeepSleep ev EMERGENCY_SLEEP_DURATION WAKEUP_TIMER s2))"

definition checkBatteryLevel :: "sleep_env \<Rightarrow> real \<Rightarrow> PowerManager \<Rightarrow> bool \<times> PowerManager" where
  "checkBatteryLevel ev batteryPercent s =
     (if batteryPercent \<le> criticalBatteryThreshold (powerConfig s)
      then (if emergencyShutdownEnabled (powerConfig s)
            then (False, enterEmergencyMode ev ''Critical battery level'' s)
            else (True, s))
      else if batteryPercent \<le> lowBatteryThreshold (powerConfig s)
      then (True,
            configurePeripherals ((peripheralConfig s)\<lparr>wifi := False, bluetooth := False\<rparr>) s)
      else (True, s))"

text \<open>
  The order of the specification (section 4.3): WiFi, Bluetooth, Cellular, SD card,
  Sensors after the 5V rail on the way up, the exact reverse with the 5V rail last on
  the way down; \<open>configured\<close> tells which of them the configuration names.
\<close>

definition power_up_order :: "string list" where
  "power_up_order = [''wifi'', ''bluetooth'', ''cellular'', ''sdcard'', ''sensors'']"

definition configured :: "PeripheralConfig \<Rightarrow> string \<Rightarrow> bool" where
  "configured c p =
     (if p = ''wifi'' then wifi c
      else if p = ''bluetooth'' then bluetooth c
      else if p = ''cellular'' then cellular c
      else if p = ''sdcard'' then sdcard c
      else if p = ''sensors'' then sensors c
      else False)"

definition power_up_trace :: "PeripheralConfig \<Rightarrow> hw_event list" where
  "power_up_trace c =
     [Supply5V True, SettleWait 1000] @
     map (\<lambda>p. PeripheralPower p True) (filter (configured c) power_up_order)"

definition power_down_trace :: "PeripheralConfig \<Rightarrow> hw_event list" where
  "power_down_trace c =
     rev (map (\<lambda>p. PeripheralPower p False) (filter (configured c) power_up_order)) @
     [Supply5V False]"

text \<open>The durations handed to the platform's deep-sleep primitive, in order.\<close>

fun requested_sleeps :: "hw_event list \<Rightarrow> 64 word list" where
  "requested_sleeps [] = []"
| "requested_sleeps (DeepSleep d # es) = d # requested_sleeps es"
| "requested_sleeps (e # es) = requested_sleeps es"

text \<open>The state the constructor of \<open>PowerManager\<close> leaves, in the development build.\<close>

definition PowerManager_new :: PowerManager where
  "PowerManager_new =
     \<lparr>esp32 = False, pm_initialized = False,
      peripheralConfig =
        \<lparr>wifi = False, bluetooth = False, cellular = False, sdcard = False, sensors = False,
         external5V = False, rtc = True, watchdog = True\<rparr>,
      powerConfig =
        \<lparr>maxSleepDuration = MAX_SLEEP_DURATION, minSleepDuration = MIN_SLEEP_DURATION,
         lowBatteryThreshold = 15, criticalBatteryThreshold = 5,
         emergencyShutdownEnabled = True, watchdogTimeoutMs = 300000,
         wakeupPin = - 1, wakeupPinLevel = False\<rparr>,
      powerStats =
        \<lparr>sleepCycles = 0, wakeupEvents = 0, lastWakeupCause = [], lastResetReason = []\<rparr>,
      emergencyMode = False, lastSleepTime = 0, lastWakeTime = 0,
      accumulatedSleepTime = 0, accumulatedActiveTime = 0,
      watchdogHandle = False, events = []\<rparr>"


section \<open>Example inputs\<close>

text \<open>A schedule whose night starts and ends at the same hour.\<close>

definition equal_hours_schedule :: SleepSchedule where
  "equal_hours_schedule =
     \<lparr>nightStartHour = 6, nightEndHour = 6, nightSleepMinutes = 30,
      daySleepMinutes = 5, enabled = True\<rparr>"

text \<open>An initialized time manager, a bus on which every transfer succeeds.\<close>

definition example_manager :: RTCTimeManager where
  "example_manager = RTCTimeManager_new\<lparr>rtc_initialized := True\<rparr>"

definition example_env :: sync_env where
  "example_env = \<lparr>read_ok = True, write_ok = True, save_ok = True, now = 1753790400\<rparr>"

text \<open>Clock registers, in BCD: 12:00:00 and 12:10:10 on the 29th of July 2024.\<close>

definition clock_120000 :: "nat \<Rightarrow> 8 word" where
  "clock_120000 a = [0x00, 0x00, 0x12, 0x02, 0x29, 0x07, 0x24] ! a"

definition clock_121010 :: "nat \<Rightarrow> 8 word" where
  "clock_121010 a = [0x10, 0x10, 0x12, 0x02, 0x29, 0x07, 0x24] ! a"

definition example_calls :: "sync_call list" where
  "example_calls =
     [\<lparr>timeString = ''2024-07-29T12:00:05'', clock = clock_120000, env = example_env\<rparr>,
      \<lparr>timeString = ''2024-07-29 12:10:00'', clock = clock_121010, env = example_env\<rparr>]"

text \<open>A time string as the cellular module reports it, then one in ISO form.\<close>

definition mixed_calls :: "sync_call list" where
  "mixed_calls =
     [\<lparr>timeString = ''24/07/29,12:34:56+04'', clock = clock_120000, env = example_env\<rparr>,
      \<lparr>timeString = ''2024-07-29T12:00:05'', clock = clock_120000, env = example_env\<rparr>]"

definition example_stats :: RTCTimeManager where
  "example_stats =
     RTCTimeManager_new\<lparr>syncAttempts := 0x0102, successfulSyncs := 0x0101,
       totalDriftSeconds := 0x01020304\<rparr>"

text \<open>
  A bus on which every transfer of \<open>initialize\<close> succeeds, and a chip whose clock runs
  and shows 12:00:00 on the 29th of July 2024, with nothing stored in its RAM.
\<close>

definition all_ok :: init_env where
  "all_ok = \<lparr>i2c_ok = True, connected = True, seconds_read_ok = True, start_write_ok = True,
     control_write_ok = True, time_read_ok = True, stats_read_ok = True\<rparr>"

definition running_clock :: ds1307 where
  "running_clock = set_clock clock_120000 (\<lambda>a. 0)"

text \<open>An initialized controller with WiFi, Bluetooth and the SD card configured.\<close>

definition example_pm :: PowerManager where
  "example_pm =
     PowerManager_new
       \<lparr>pm_initialized := True,
        peripheralConfig :=
          \<lparr>wifi = True, bluetooth = True, cellular = False, sdcard = True, sensors = False,
           external5V = False, rtc = True, watchdog = True\<rparr>\<rparr>"

definition example_pm_no_shutdown :: PowerManager where
  "example_pm_no_shutdown =
     example_pm\<lparr>powerConfig := (powerConfig example_pm)\<lparr>emergencyShutdownEnabled := False\<rparr>\<rparr>"

definition example_sleep_env :: sleep_env where
  "example_sleep_env = \<lparr>at_sleep = 5000000, at_wake = 65000000, reported_cause = Wake_TIMER\<rparr>"


section \<open>Properties of the sleep schedule\<close>

lemma unat_minutes_to_us: "unat (minutes_to_us m) = unat m * 60000000"
proof -
  have m32: "unat m < 2 ^ 32"
    using unsigned_less [of m] by simp
  then have small: "unat m * 60000000 < 2 ^ 64"
    by simp
  from m32 have "unat m < 2 ^ 64"
    by simp
  then have widen: "unat (ucast m :: 64 word) = unat m"
    by (simp add: unsigned_ucast_eq take_bit_nat_eq_self)
  have "unat (minutes_to_us m) = (unat m * 60000000) mod 2 ^ 64"
    by (simp add: minutes_to_us_def unat_word_ariths widen mult.assoc)
  with small show ?thesis
    by simp
qed

lemma minutes_to_us_inj: "minutes_to_us a = minutes_to_us b \<longleftrightarrow> a = b"
proof
  assume "minutes_to_us a = minutes_to_us b"
  then have "unat (minutes_to_us a) = unat (minutes_to_us b)"
    by simp
  then have "unat a = unat b"
    by (simp add: unat_minutes_to_us)
  then show "a = b"
    by (rule word_unat_eq_iff [THEN iffD2])
next
  assume "a = b"
  then show "minutes_to_us a = minutes_to_us b"
    by simp
qed

lemma isdigit_char_of: "k < 10 \<Longrightarrow> isdigit (char_of (48 + k :: nat))"
  by (simp add: isdigit_def)

lemma digit_val_char_of: "k < 10 \<Longrightarrow> digit_val (char_of (48 + k :: nat)) = int k"
  by (simp add: digit_val_def)

lemma stoi_two_digits: "n < 100 \<Longrightarrow> stoi (two_digits n) = int n"
proof -
  assume "n < 100"
  then have d: "n div 10 < 10" and m: "n mod 10 < 10" by simp_all
  have "int (10 * (n div 10) + n mod 10) = int n"
    by simp
  then have "10 * int (n div 10) + int (n mod 10) = int n"
    by (simp only: of_nat_add of_nat_mult of_nat_numeral)
  with d m show ?thesis
    by (simp add: stoi_def two_digits_def digit_val_char_of)
qed

lemma timeRegex_match_clock:
  assumes "h < 100" and "m < 100" and "s < 100"
  shows "timeRegex_match
           (''2025-07-29T'' @ two_digits h @ '':'' @ two_digits m @ '':'' @ two_digits s)
         = Some (two_digits h, two_digits m, two_digits s)"
proof -
  from assms have "h div 10 < 10" "h mod 10 < 10" "m div 10 < 10" "m mod 10 < 10"
    "s div 10 < 10" "s mod 10 < 10" by simp_all
  then show ?thesis
    by (simp add: timeRegex_match_def datetime_shape_def digits_at_def two_digits_def
        isdigit_char_of) (simp add: isdigit_def)
qed

lemma getNightSleepDuration_matched:
  assumes "timeRegex_match t = Some (hh, mm, ss)"
  shows "getNightSleepDuration sch t =
           (if enabled sch \<and> spec_is_night (nightStartHour sch) (nightEndHour sch) (stoi hh)
            then night_duration sch else day_duration sch)"
  using assms
  by (simp add: getNightSleepDuration_def spec_is_night_def night_duration_def
      day_duration_def Let_def)

text \<open>
  C4. With the schedule enabled and a time string of the clock's format whose hour field
  reads \<open>h\<close>, the evaluator returns the night duration when the wrap-aware membership
  test of the specification holds for \<open>h\<close> and the day duration otherwise (so, when the
  two durations differ, the night duration if and only if the test holds); with the
  schedule disabled it returns the day duration whatever the time string is. For the
  schedule 22 to 6 the hours 22, 23, 0, ..., 5 give the night duration and the hours
  6 to 21 the day duration. Every hour from 0 to 23 is the hour field of such a string:
  the last part states the result for the strings the clock prints for each of them.
\<close>

theorem sleep_schedule_correct:
  assumes "timeRegex_match t = Some (hh, mm, ss)"
  shows "(enabled sch \<longrightarrow>
            getNightSleepDuration sch t =
              (if spec_is_night (nightStartHour sch) (nightEndHour sch) (stoi hh)
               then night_duration sch else day_duration sch)) \<and>
         (enabled sch \<longrightarrow> nightSleepMinutes sch \<noteq> daySleepMinutes sch \<longrightarrow>
            (getNightSleepDuration sch t = night_duration sch \<longleftrightarrow>
             spec_is_night (nightStartHour sch) (nightEndHour sch) (stoi hh))) \<and>
         (\<not> enabled sch \<longrightarrow> (\<forall>u. getNightSleepDuration sch u = day_duration sch)) \<and>
         (enabled sch \<longrightarrow> nightStartHour sch = 22 \<longrightarrow> nightEndHour sch = 6 \<longrightarrow>
            (stoi hh \<in> {22, 23, 0, 1, 2, 3, 4, 5} \<longrightarrow>
               getNightSleepDuration sch t = night_duration sch) \<and>
            (6 \<le> stoi hh \<longrightarrow> stoi hh \<le> 21 \<longrightarrow>
               getNightSleepDuration sch t = day_duration sch)) \<and>
         (\<forall>h mi s. h \<le> 23 \<longrightarrow> mi \<le> 59 \<longrightarrow> s \<le> 59 \<longrightarrow> enabled sch \<longrightarrow>
            getNightSleepDuration sch
              (''2025-07-29T'' @ two_digits h @ '':'' @ two_digits mi @ '':'' @ two_digits s) =
              (if spec_is_night (nightStartHour sch) (nightEndHour sch) (int h)
               then night_duration sch else day_duration sch))"
proof -
  note m = getNightSleepDuration_matched [OF assms, of sch]
  have e: "\<forall>h mi s. h \<le> 23 \<longrightarrow> mi \<le> 59 \<longrightarrow> s \<le> 59 \<longrightarrow> enabled sch \<longrightarrow>
            getNightSleepDuration sch
              (''2025-07-29T'' @ two_digits h @ '':'' @ two_digits mi @ '':'' @ two_digits s) =
              (if spec_is_night (nightStartHour sch) (nightEndHour sch) (int h)
               then night_duration sch else day_duration sch)"
  proof (intro allI impI)
    fix h mi s :: nat
    assume h: "h \<le> 23" and mi: "mi \<le> 59" and s: "s \<le> 59" and en: "enabled sch"
    have "timeRegex_match
            (''2025-07-29T'' @ two_digits h @ '':'' @ two_digits mi @ '':'' @ two_digits s)
          = Some (two_digits h, two_digits mi, two_digits s)"
      by (rule timeRegex_match_clock) (use h mi s in simp_all)
    from getNightSleepDuration_matched [OF this, of sch] en h
    show "getNightSleepDuration sch
            (''2025-07-29T'' @ two_digits h @ '':'' @ two_digits mi @ '':'' @ two_digits s) =
            (if spec_is_night (nightStartHour sch) (nightEndHour sch) (int h)
             then night_duration sch else day_duration sch)"
      by (simp add: stoi_two_digits)
  qed
  have a: "enabled sch \<longrightarrow>
            getNightSleepDuration sch t =
              (if spec_is_night (nightStartHour sch) (nightEndHour sch) (stoi hh)
               then night_duration sch else day_duration sch)"
    by (simp add: m)
  have b: "enabled sch \<longrightarrow> nightSleepMinutes sch \<noteq> daySleepMinutes sch \<longrightarrow>
            (getNightSleepDuration sch t = night_duration sch \<longleftrightarrow>
             spec_is_night (nightStartHour sch) (nightEndHour sch) (stoi hh))"
    by (simp add: m night_duration_def day_duration_def minutes_to_us_inj)
  have c: "\<not> enabled sch \<longrightarrow> (\<forall>u. getNightSleepDuration sch u = day_duration sch)"
    by (simp add: getNightSleepDuration_def day_duration_def)
  have d: "enabled sch \<longrightarrow> nightStartHour sch = 22 \<longrightarrow> nightEndHour sch = 6 \<longrightarrow>
            (stoi hh \<in> {22, 23, 0, 1, 2, 3, 4, 5} \<longrightarrow>
               getNightSleepDuration sch t = night_duration sch) \<and>
            (6 \<le> stoi hh \<longrightarrow> stoi hh \<le> 21 \<longrightarrow>
               getNightSleepDuration sch t = day_duration sch)"
    by (auto simp add: m spec_is_night_def)
  from a b c d e show ?thesis
    by blast
qed

lemma timeRegex_match_example:
  "timeRegex_match ''2025-07-29T23:15:00'' = Some (''23'', ''15'', ''00'')"
  by (simp add: timeRegex_match_def datetime_shape_def digits_at_def isdigit_def)

lemma stoi_23: "stoi ''23'' = 23"
  by (simp add: stoi_def digit_val_def)

theorem sleep_schedule_correct_witness:
  "timeRegex_match ''2025-07-29T23:15:00'' = Some (''23'', ''15'', ''00'') \<and>
   enabled default_schedule \<and>
   spec_is_night 22 6 23 \<and>
   getNightSleepDuration default_schedule ''2025-07-29T23:15:00'' = 1800000000 \<and>
   getNightSleepDuration (default_schedule\<lparr>enabled := False\<rparr>) ''2025-07-29T23:15:00''
     = 300000000"
  using sleep_schedule_correct [OF timeRegex_match_example, of default_schedule]
    sleep_schedule_correct [OF timeRegex_match_example, of "default_schedule\<lparr>enabled := False\<rparr>"]
  by (simp add: timeRegex_match_example stoi_23 default_schedule_def spec_is_night_def
      night_duration_def day_duration_def minutes_to_us_def)

text \<open>
  C9 (as stated). The claim is that with the schedule enabled and the night starting
  and ending at the same hour every hour is night. The code disagrees: for the
  schedule 6 to 6 at six o'clock it returns the day duration, five minutes, and not the
  night duration, thirty minutes.
\<close>

theorem equal_hours_not_full_night:
  "getNightSleepDuration equal_hours_schedule ''2025-07-29T06:00:00'' = 300000000 \<and>
   night_duration equal_hours_schedule = 1800000000 \<and>
   getNightSleepDuration equal_hours_schedule ''2025-07-29T06:00:00'' \<noteq>
     night_duration equal_hours_schedule"
proof -
  have m: "timeRegex_match ''2025-07-29T06:00:00'' = Some (''06'', ''00'', ''00'')"
    by (simp add: timeRegex_match_def datetime_shape_def digits_at_def isdigit_def)
  have h: "stoi ''06'' = 6"
    by (simp add: stoi_def digit_val_def)
  have d: "getNightSleepDuration equal_hours_schedule ''2025-07-29T06:00:00'' = 300000000"
    by (simp add: getNightSleepDuration_matched [OF m] h equal_hours_schedule_def
        spec_is_night_def day_duration_def minutes_to_us_def)
  have n: "night_duration equal_hours_schedule = 1800000000"
    by (simp add: night_duration_def equal_hours_schedule_def minutes_to_us_def)
  from d n show ?thesis
    by simp
qed

text \<open>
  C9 (amended). When the schedule is enabled and nightStartHour equals nightEndHour,
  the evaluator treats no hour as night: the half-open night interval is empty, the
  membership test fails for every hour, and the day duration is returned for every
  time string.
\<close>

theorem equal_hours_always_day:
  assumes "enabled sch" and "nightStartHour sch = nightEndHour sch"
  shows "getNightSleepDuration sch t = day_duration sch \<and>
         \<not> spec_is_night (nightStartHour sch) (nightEndHour sch) h"
  using assms
  by (auto simp add: getNightSleepDuration_def day_duration_def spec_is_night_def Let_def
      split: option.splits)

theorem equal_hours_always_day_witness:
  "enabled equal_hours_schedule \<and>
   nightStartHour equal_hours_schedule = nightEndHour equal_hours_schedule \<and>
   getNightSleepDuration equal_hours_schedule ''2025-07-29T06:00:00'' = 300000000 \<and>
   \<not> spec_is_night 6 6 6"
  using equal_hours_always_day [of equal_hours_schedule "''2025-07-29T06:00:00''" 6]
  by (simp add: equal_hours_schedule_def day_duration_def minutes_to_us_def)


section \<open>Properties of the RTC time manager\<close>

lemma and_ff: "(w :: 'a::len word) AND 0xFF = take_bit 8 w"
proof -
  have "(0xFF :: 'a word) = mask 8"
    by (simp add: mask_eq_exp_minus_1)
  then show ?thesis
    by (simp add: take_bit_eq_mask)
qed

lemma join16: "push_bit 8 (ucast (ucast (drop_bit 8 a AND 0xFF :: 16 word) :: 8 word)) OR
   ucast (ucast (a AND 0xFF) :: 8 word) = (a :: 16 word)"
  unfolding and_ff
  apply (rule bit_word_eqI)
  apply (auto simp add: bit_simps)
  done

lemma join32: "push_bit 24 (ucast (ucast (drop_bit 24 a AND 0xFF :: 32 word) :: 8 word)) OR
   push_bit 16 (ucast (ucast (drop_bit 16 a AND 0xFF :: 32 word) :: 8 word)) OR
   push_bit 8 (ucast (ucast (drop_bit 8 a AND 0xFF :: 32 word) :: 8 word)) OR
   ucast (ucast (a AND 0xFF) :: 8 word) = (a :: 32 word)"
  unfolding and_ff
  apply (rule bit_word_eqI)
  apply (auto simp add: bit_simps)
  subgoal for n by (cases "16 \<le> n") simp_all
  subgoal for n by (cases "16 \<le> n") simp_all
  done

lemma upt12: "[8 ..< 20] = [8,9,10,11,12,13,14,15,16,17,18,19::nat]"
  by (simp add: upt_rec)

lemma saved: "map (savePersistedData True m dev) [8 ..< 20] = persisted_bytes m"
  by (simp add: savePersistedData_def writeEEPROM_def writeRegisters_def persisted_bytes_def upt12)


lemma read_saved:
  "readEEPROM True (savePersistedData True m dev) 0 12 = Some (persisted_bytes m)"
  using saved [of m dev] by (simp add: readEEPROM_def readRegisters_def)

lemma load_save:
  "loadPersistedData True (savePersistedData True m dev) m0 =
     m0\<lparr>syncAttempts := syncAttempts m, successfulSyncs := successfulSyncs m,
        totalDriftSeconds := totalDriftSeconds m\<rparr>"
  by (simp add: loadPersistedData_def read_saved persisted_bytes_def join16 join32)

lemma save_frame:
  "a < 8 \<or> 20 \<le> a \<Longrightarrow> savePersistedData True m dev a = dev a"
  by (auto simp add: savePersistedData_def writeEEPROM_def writeRegisters_def persisted_bytes_def)

lemma load_bad_magic:
  "dev 8 \<noteq> 0xA5 \<or> dev 9 \<noteq> 0x5A \<Longrightarrow> loadPersistedData ok dev m = m"
  by (auto simp add: loadPersistedData_def readEEPROM_def readRegisters_def upt12)

lemma parse_failure:
  "parseTimeString s = None \<Longrightarrow> setTimeFromNetwork e s (m, dev) = (False, m, dev)"
  by (simp add: setTimeFromNetwork_def)

lemma step_counters:
  assumes "setTimeFromNetwork e s (m, dev) = (r, m', dev')"
    and "successfulSyncs m = syncAttempts m"
  shows "successfulSyncs m' = syncAttempts m'"
  using assms
  by (auto simp add: setTimeFromNetwork_def Let_def writeDateTime_def writeRegisters_def
      split: if_splits option.splits prod.splits bool.splits)

lemma run_counters:
  "successfulSyncs (fst st) = syncAttempts (fst st) \<Longrightarrow>
   successfulSyncs (fst (snd (sync_run cs st))) = syncAttempts (fst (snd (sync_run cs st)))"
proof (induction cs arbitrary: st)
  case Nil
  then show ?case by simp
next
  case (Cons c cs)
  obtain r m1 d1 where
    st: "setTimeFromNetwork (env c) (timeString c) (fst st, set_clock (clock c) (snd st)) = (r, m1, d1)"
    by (metis prod_cases3)
  have "successfulSyncs (fst (m1, d1)) = syncAttempts (fst (m1, d1))"
    using step_counters [OF st Cons.prems] by simp
  then have "successfulSyncs (fst (snd (sync_run cs (m1, d1)))) =
             syncAttempts (fst (snd (sync_run cs (m1, d1))))"
    by (rule Cons.IH)
  then show ?case
    by (auto simp add: st split: prod.splits)
qed


lemma upt7: "[0 ..< 7] = [0,1,2,3,4,5,6::nat]"
  by (simp add: upt_rec)

lemma read_clock:
  "readDateTime True (set_clock c dev) = Some (decode_time (map c [0 ..< 7]))"
  by (simp add: readDateTime_def readRegisters_def set_clock_def upt7)

lemma calculateDrift_spec:
  "calculateDrift cur new = spec_linear_seconds new - spec_linear_seconds cur"
  by (simp add: calculateDrift_def spec_linear_seconds_def Let_def)

lemma step_drift:
  assumes "rtc_initialized m" and "hasValidTime m" and "read_ok (env c)"
    and "setTimeFromNetwork (env c) (timeString c) (m, set_clock (clock c) dev) = (True, m', dev')"
  shows "totalDriftSeconds m' = totalDriftSeconds m + word_of_int \<bar>spec_drift c\<bar> \<and>
         rtc_initialized m' \<and> hasValidTime m'"
  using assms
  by (auto simp add: setTimeFromNetwork_def Let_def read_clock calculateDrift_spec spec_drift_def
      split: option.splits prod.splits bool.splits)

lemma run_drift:
  "rtc_initialized (fst st) \<Longrightarrow> hasValidTime (fst st) \<Longrightarrow>
   list_all (\<lambda>c. read_ok (env c)) cs \<Longrightarrow> list_all (\<lambda>r. r) (fst (sync_run cs st)) \<Longrightarrow>
   totalDriftSeconds (fst (snd (sync_run cs st))) =
     totalDriftSeconds (fst st) + word_of_int (sum_list (map (\<lambda>c. \<bar>spec_drift c\<bar>) cs))"
proof (induction cs arbitrary: st)
  case Nil
  then show ?case by simp
next
  case (Cons c cs)
  obtain r m1 d1 where
    st: "setTimeFromNetwork (env c) (timeString c) (fst st, set_clock (clock c) (snd st)) = (r, m1, d1)"
    by (metis prod_cases3)
  from Cons.prems(4) st have r: "r" and rest: "list_all (\<lambda>r. r) (fst (sync_run cs (m1, d1)))"
    by (auto split: prod.splits)
  from Cons.prems(3) have rd: "read_ok (env c)" and rds: "list_all (\<lambda>c. read_ok (env c)) cs"
    by simp_all
  from st r have st': "setTimeFromNetwork (env c) (timeString c) (fst st, set_clock (clock c) (snd st)) = (True, m1, d1)"
    by simp
  note one = step_drift [OF Cons.prems(1) Cons.prems(2) rd st']
  have "totalDriftSeconds (fst (snd (sync_run cs (m1, d1)))) =
     totalDriftSeconds (fst (m1, d1)) + word_of_int (sum_list (map (\<lambda>c. \<bar>spec_drift c\<bar>) cs))"
    by (rule Cons.IH) (use one rds rest in simp_all)
  with one show ?case
    by (auto simp add: st split: prod.splits)
qed

lemma sint_add_exact:
  fixes w :: "32 word"
  assumes "0 \<le> sint w" and "0 \<le> x" and "sint w + x < 2 ^ 31"
  shows "sint (w + word_of_int x) = sint w + x"
proof -
  have x: "signed_take_bit 31 x = x"
    using assms by (simp add: signed_take_bit_int_eq_self)
  have "sint (w + word_of_int x) = signed_take_bit 31 (sint w + x)"
    by (simp add: sint_word_ariths sint_sbintrunc' x)
  also have "\<dots> = sint w + x"
    using assms by (simp add: signed_take_bit_int_eq_self)
  finally show ?thesis .
qed


lemma be_word2: "be_word [h, l] = (push_bit 8 (ucast h) OR ucast l :: 'a::len word)"
  by (simp add: be_word_def)

lemma be_word4: "be_word [b3, b2, b1, b0] =
  (push_bit 24 (ucast b3) OR push_bit 16 (ucast b2) OR push_bit 8 (ucast b1) OR ucast b0 :: 'a::len word)"
  by (simp add: be_word_def push_bit_or push_bit_push_bit ac_simps)

lemma layout:
  "length (persisted_bytes m) = 12 \<and>
   take 2 (persisted_bytes m) = [0xA5, 0x5A] \<and>
   be_word (take 2 (drop 2 (persisted_bytes m))) = syncAttempts m \<and>
   be_word (take 2 (drop 4 (persisted_bytes m))) = successfulSyncs m \<and>
   be_word (take 4 (drop 6 (persisted_bytes m))) = totalDriftSeconds m \<and>
   drop 10 (persisted_bytes m) = [0, 0]"
  by (simp add: persisted_bytes_def be_word2 be_word4 join16 join32)

lemma setTime_ok:
  assumes "rtc_initialized m" and "parseTimeString s = Some t" and "write_ok e"
  shows "fst (setTimeFromNetwork e s (m, dev)) \<and>
         rtc_initialized (fst (snd (setTimeFromNetwork e s (m, dev)))) \<and>
         hasValidTime (fst (snd (setTimeFromNetwork e s (m, dev)))) \<and>
         syncAttempts (fst (snd (setTimeFromNetwork e s (m, dev)))) = syncAttempts m + 1 \<and>
         successfulSyncs (fst (snd (setTimeFromNetwork e s (m, dev)))) = successfulSyncs m + 1"
  using assms
  by (simp add: setTimeFromNetwork_def writeDateTime_def writeRegisters_def Let_def
      split: option.splits)

lemma run_all_true:
  "rtc_initialized (fst st) \<Longrightarrow>
   list_all (\<lambda>c. parseTimeString (timeString c) \<noteq> None \<and> write_ok (env c)) cs \<Longrightarrow>
   list_all (\<lambda>r. r) (fst (sync_run cs st))"
proof (induction cs arbitrary: st)
  case Nil
  then show ?case by simp
next
  case (Cons c cs)
  from Cons.prems(2) obtain t where p: "parseTimeString (timeString c) = Some t"
    and w: "write_ok (env c)" and rest: "list_all (\<lambda>c. parseTimeString (timeString c) \<noteq> None \<and> write_ok (env c)) cs"
    by auto
  note ok = setTime_ok [OF Cons.prems(1) p w, of "set_clock (clock c) (snd st)"]
  obtain r st1 where
    st: "setTimeFromNetwork (env c) (timeString c) (fst st, set_clock (clock c) (snd st)) = (r, st1)"
    by (metis surj_pair)
  from ok st have r: r and i: "rtc_initialized (fst st1)"
    by simp_all
  have "list_all (\<lambda>r. r) (fst (sync_run cs st1))"
    using i rest by (rule Cons.IH)
  with r show ?case
    by (auto simp add: st split: prod.splits)
qed

lemma stoi_examples:
  "stoi ''2024'' = 2024" "stoi ''07'' = 7" "stoi ''29'' = 29" "stoi ''12'' = 12"
  "stoi ''00'' = 0" "stoi ''05'' = 5" "stoi ''10'' = 10"
  by (simp_all add: stoi_def digit_val_def)

lemma dayOfWeek_example: "calculateDayOfWeek 2024 7 29 = 1"
  unfolding calculateDayOfWeek_def Let_def by (simp add: cdiv_def cmod_def)

lemma match_iso: "dateRegex_match (CHR ''T'') ''2024-07-29T12:00:05'' =
    Some (''2024'', ''07'', ''29'', ''12'', ''00'', ''05'')"
  by (simp add: dateRegex_match_def datetime_shape_def digits_at_def isdigit_def)

lemma match_alt: "dateRegex_match (CHR ''T'') ''2024-07-29 12:10:00'' = None \<and>
  dateRegex_match (CHR '' '') ''2024-07-29 12:10:00'' =
    Some (''2024'', ''07'', ''29'', ''12'', ''10'', ''00'')"
  by (simp add: dateRegex_match_def datetime_shape_def digits_at_def isdigit_def)

lemma parse_iso: "parseTimeString ''2024-07-29T12:00:05'' =
   Some \<lparr>seconds = 5, minutes = 0, hours = 12, dayOfWeek = 1, date = 29, month = 7, year = 24\<rparr>"
  by (simp add: parseTimeString_def match_iso fill_dateTime_def stoi_examples dayOfWeek_example)

lemma parse_alt: "parseTimeString ''2024-07-29 12:10:00'' =
   Some \<lparr>seconds = 0, minutes = 10, hours = 12, dayOfWeek = 1, date = 29, month = 7, year = 24\<rparr>"
  by (simp add: parseTimeString_def match_alt fill_dateTime_def stoi_examples dayOfWeek_example)

lemma parse_cell: "parseTimeString ''24/07/29,12:34:56+04'' = None"
  by (simp add: parseTimeString_def dateRegex_match_def datetime_shape_def)

lemma drift1: "spec_drift (example_calls ! 0) = 5"
  by (simp add: example_calls_def spec_drift_def parse_iso spec_linear_seconds_def
      decode_time_def bcdToDec_def clock_120000_def upt7)

lemma drift2: "spec_drift (example_calls ! 1) = - 10"
  by (simp add: example_calls_def spec_drift_def parse_alt spec_linear_seconds_def
      decode_time_def bcdToDec_def clock_121010_def upt7)

lemma example_parses:
  "list_all (\<lambda>c. parseTimeString (timeString c) \<noteq> None \<and> write_ok (env c)) example_calls"
  by (simp add: example_calls_def parse_iso parse_alt example_env_def)

lemma example_reads: "list_all (\<lambda>c. read_ok (env c)) example_calls"
  by (simp add: example_calls_def example_env_def)

lemma example_sum: "sum_list (map (\<lambda>c. \<bar>spec_drift c\<bar>) example_calls) = 15"
  using drift1 drift2 by (simp add: example_calls_def)

text \<open>
  C5. Starting from a state in which both counters are zero, after every sequence of
  \<open>setTimeFromNetwork\<close> calls (whatever the strings, the clock and the bus do)
  successfulSyncs is at most syncAttempts; and a call whose time string fails to parse
  returns failure and leaves the whole state, both counters included, as it was.
\<close>

theorem sync_counter_invariant:
  assumes "syncAttempts m = 0" and "successfulSyncs m = 0"
  shows "successfulSyncs (fst (snd (sync_run cs (m, dev)))) \<le>
           syncAttempts (fst (snd (sync_run cs (m, dev)))) \<and>
         (parseTimeString s = None \<longrightarrow>
            setTimeFromNetwork e s (m1, dev1) = (False, m1, dev1))"
proof -
  have "successfulSyncs (fst (m, dev)) = syncAttempts (fst (m, dev))"
    using assms by simp
  then have "successfulSyncs (fst (snd (sync_run cs (m, dev)))) =
             syncAttempts (fst (snd (sync_run cs (m, dev))))"
    by (rule run_counters)
  then show ?thesis
    by (simp add: parse_failure)
qed

text \<open>The invariant on a sequence that begins with a string the parser rejects.\<close>

theorem sync_counter_invariant_witness:
  "syncAttempts example_manager = 0 \<and> successfulSyncs example_manager = 0 \<and>
   parseTimeString ''24/07/29,12:34:56+04'' = None \<and>
   successfulSyncs (fst (snd (sync_run mixed_calls (example_manager, \<lambda>a. 0)))) \<le>
     syncAttempts (fst (snd (sync_run mixed_calls (example_manager, \<lambda>a. 0)))) \<and>
   setTimeFromNetwork example_env ''24/07/29,12:34:56+04'' (example_manager, \<lambda>a. 0) =
     (False, example_manager, \<lambda>a. 0)"
  using sync_counter_invariant [of example_manager mixed_calls "\<lambda>a. 0"
      "''24/07/29,12:34:56+04''" example_env example_manager "\<lambda>a. 0"]
  by (simp add: example_manager_def RTCTimeManager_new_def parse_cell)

text \<open>
  Accumulation once the validity flag is set: after N successful
  \<open>setTimeFromNetwork\<close> calls from a state whose \<open>hasValidTime\<close> holds, the hardware
  time being readable at each call, totalDriftSeconds has grown by the
  sum of the absolute values of the drifts, each drift being the linear difference of
  seconds + minutes * 60 + hours * 3600 + day * 86400 between the new time and the
  hardware time, month and year ignored. The addition is that of the 32-bit member;
  from zero, and as long as the sum stays below \<open>2^31\<close>, the member read as a signed
  number is the sum itself.
\<close>

lemma drift_accumulates_once_valid:
  assumes "rtc_initialized m" and "hasValidTime m"
    and "list_all (\<lambda>c. read_ok (env c)) cs"
    and "list_all (\<lambda>r. r) (fst (sync_run cs (m, dev)))"
  shows "totalDriftSeconds (fst (snd (sync_run cs (m, dev)))) =
           totalDriftSeconds m + word_of_int (sum_list (map (\<lambda>c. \<bar>spec_drift c\<bar>) cs)) \<and>
         (totalDriftSeconds m = 0 \<and> sum_list (map (\<lambda>c. \<bar>spec_drift c\<bar>) cs) < 2 ^ 31 \<longrightarrow>
            sint (totalDriftSeconds (fst (snd (sync_run cs (m, dev))))) =
              sum_list (map (\<lambda>c. \<bar>spec_drift c\<bar>) cs))"
proof -
  let ?S = "sum_list (map (\<lambda>c. \<bar>spec_drift c\<bar>) cs)"
  have eq: "totalDriftSeconds (fst (snd (sync_run cs (m, dev)))) =
              totalDriftSeconds (fst (m, dev)) + word_of_int ?S"
    by (rule run_drift) (use assms in simp_all)
  have nonneg: "0 \<le> ?S"
    by (rule sum_list_nonneg) auto
  have "sint (totalDriftSeconds (fst (snd (sync_run cs (m, dev))))) = ?S"
    if z: "totalDriftSeconds m = 0" and small: "?S < 2 ^ 31"
  proof -
    have "sint ((0 :: 32 word) + word_of_int ?S) = sint (0 :: 32 word) + ?S"
      by (rule sint_add_exact) (use nonneg small in simp_all)
    with eq z show ?thesis by simp
  qed
  with eq show ?thesis by simp
qed

text \<open>Two syncs with drifts of 5 and of -10 seconds accumulate 15.\<close>

lemma drift_accumulates_example:
  "rtc_initialized (example_manager\<lparr>hasValidTime := True\<rparr>) \<and>
   hasValidTime (example_manager\<lparr>hasValidTime := True\<rparr>) \<and>
   list_all (\<lambda>c. read_ok (env c)) example_calls \<and>
   list_all (\<lambda>r. r)
     (fst (sync_run example_calls (example_manager\<lparr>hasValidTime := True\<rparr>, \<lambda>a. 0))) \<and>
   map spec_drift example_calls = [5, - 10] \<and>
   totalDriftSeconds
     (fst (snd (sync_run example_calls (example_manager\<lparr>hasValidTime := True\<rparr>, \<lambda>a. 0)))) = 15"
proof -
  let ?m = "example_manager\<lparr>hasValidTime := True\<rparr>"
  have i: "rtc_initialized ?m" and v: "hasValidTime ?m" and z: "totalDriftSeconds ?m = 0"
    by (simp_all add: example_manager_def RTCTimeManager_new_def)
  have t: "list_all (\<lambda>r. r) (fst (sync_run example_calls (?m, \<lambda>a. 0)))"
    by (rule run_all_true) (use i example_parses in simp_all)
  have d: "map spec_drift example_calls = [5, - 10]"
    using drift1 drift2 by (simp add: example_calls_def)
  from drift_accumulates_once_valid [OF i v example_reads t] z example_sum
  have "totalDriftSeconds (fst (snd (sync_run example_calls (?m, \<lambda>a. 0)))) = 15"
    by simp
  with i v example_reads t d show ?thesis by simp
qed

text \<open>The first sync of a session.\<close>

lemma loadPersistedData_validity:
  "hasValidTime (loadPersistedData ok dev m) = hasValidTime m"
  by (simp add: loadPersistedData_def split: option.splits)

lemma initialize_keeps_validity:
  "hasValidTime (fst (snd (initialize ie (m, dev)))) = hasValidTime m"
  by (simp add: initialize_def getCurrentDateTime_def Let_def loadPersistedData_validity
      split: option.splits prod.splits bool.splits)

lemma first_sync_no_drift:
  assumes "\<not> hasValidTime m"
  shows "totalDriftSeconds (fst (snd (setTimeFromNetwork e s (m, dev)))) = totalDriftSeconds m"
  using assms
  by (simp add: setTimeFromNetwork_def Let_def split: option.splits prod.splits bool.splits)

lemma running_clock_regs:
  "running_clock 0 = 0" "running_clock 7 = 0" "running_clock 8 = 0" "running_clock 9 = 0"
  by (simp_all add: running_clock_def set_clock_def clock_120000_def)

lemma initialize_fresh:
  "initialize all_ok (RTCTimeManager_new, running_clock) = (True, example_manager, running_clock)"
proof -
  have l: "loadPersistedData True running_clock RTCTimeManager_new = RTCTimeManager_new"
    by (rule load_bad_magic) (simp add: running_clock_regs)
  have u: "running_clock(7 := 0) = running_clock"
    by (rule ext) (simp add: running_clock_regs)
  show ?thesis
    unfolding initialize_def Let_def
    by (simp add: all_ok_def readRegister_def writeRegister_def running_clock_regs u
        l [unfolded RTCTimeManager_new_def]
        getCurrentDateTime_def RTCTimeManager_new_def example_manager_def)
qed

lemma running_clock_time:
  "readDateTime True running_clock =
     Some \<lparr>seconds = 0, minutes = 0, hours = 12, dayOfWeek = 2, date = 29, month = 7, year = 24\<rparr>"
  unfolding running_clock_def
  by (simp add: read_clock decode_time_def bcdToDec_def clock_120000_def upt7)

lemma running_clock_printed:
  "getCurrentDateTime True example_manager running_clock = ''2024-07-29T12:00:00''"
  by (simp add: getCurrentDateTime_def example_manager_def RTCTimeManager_new_def
      running_clock_time format_dateTime_def to_string_def setw_fill_def digit_char_def)

lemma printed_time_valid: "isValidTime ''2024-07-29T12:00:00''"
proof -
  have m: "dateRegex_match (CHR ''T'') ''2024-07-29T12:00:00'' =
      Some (''2024'', ''07'', ''29'', ''12'', ''00'', ''00'')"
    by (simp add: dateRegex_match_def datetime_shape_def digits_at_def isdigit_def)
  show ?thesis
    by (simp add: isValidTime_def m stoi_examples)
qed

text \<open>
  C6. The claim is that every successful \<open>setTimeFromNetwork\<close> call made while a valid
  hardware time is readable adds the absolute drift to totalDriftSeconds. On the code
  the first successful sync after \<open>initialize\<close> adds nothing: \<open>initialize\<close> never
  sets \<open>hasValidTime\<close>, whatever the clock shows, so with the clock at a valid, readable
  12:00:00 and the network time 12:00:05 the sync succeeds, the drift is 5 seconds, and
  totalDriftSeconds stays 0.
\<close>

theorem first_sync_adds_no_drift:
  "initialize all_ok (RTCTimeManager_new, running_clock) = (True, example_manager, running_clock) \<and>
   \<not> hasValidTime example_manager \<and>
   (\<forall>ie m dev. hasValidTime (fst (snd (initialize ie (m, dev)))) = hasValidTime m) \<and>
   getCurrentDateTime True example_manager running_clock = ''2024-07-29T12:00:00'' \<and>
   isValidTime ''2024-07-29T12:00:00'' \<and>
   readDateTime True running_clock =
     Some \<lparr>seconds = 0, minutes = 0, hours = 12, dayOfWeek = 2, date = 29, month = 7,
           year = 24\<rparr> \<and>
   parseTimeString ''2024-07-29T12:00:05'' =
     Some \<lparr>seconds = 5, minutes = 0, hours = 12, dayOfWeek = 1, date = 29, month = 7,
           year = 24\<rparr> \<and>
   calculateDrift
     \<lparr>seconds = 0, minutes = 0, hours = 12, dayOfWeek = 2, date = 29, month = 7, year = 24\<rparr>
     \<lparr>seconds = 5, minutes = 0, hours = 12, dayOfWeek = 1, date = 29, month = 7, year = 24\<rparr>
     = 5 \<and>
   fst (setTimeFromNetwork example_env ''2024-07-29T12:00:05'' (example_manager, running_clock)) \<and>
   totalDriftSeconds
     (fst (snd (setTimeFromNetwork example_env ''2024-07-29T12:00:05''
        (example_manager, running_clock)))) = 0"
proof -
  have v: "\<not> hasValidTime example_manager" and i: "rtc_initialized example_manager"
    and z: "totalDriftSeconds example_manager = 0"
    by (simp_all add: example_manager_def RTCTimeManager_new_def)
  have w: "write_ok example_env"
    by (simp add: example_env_def)
  have d: "calculateDrift
     \<lparr>seconds = 0, minutes = 0, hours = 12, dayOfWeek = 2, date = 29, month = 7, year = 24\<rparr>
     \<lparr>seconds = 5, minutes = 0, hours = 12, dayOfWeek = 1, date = 29, month = 7, year = 24\<rparr>
     = 5"
    by (simp add: calculateDrift_spec spec_linear_seconds_def)
  have ok: "fst (setTimeFromNetwork example_env ''2024-07-29T12:00:05''
              (example_manager, running_clock))"
    using setTime_ok [OF i parse_iso w, of running_clock] by simp
  have t: "totalDriftSeconds
     (fst (snd (setTimeFromNetwork example_env ''2024-07-29T12:00:05''
        (example_manager, running_clock)))) = 0"
    using first_sync_no_drift [OF v, of example_env "''2024-07-29T12:00:05''" running_clock] z
    by simp
  from initialize_fresh v initialize_keeps_validity running_clock_printed printed_time_valid
    running_clock_time parse_iso d ok t
  show ?thesis
    by blast
qed

text \<open>
  C7. Saving the sync state writes, at the start of the chip's RAM, exactly twelve
  bytes: the magic number 0xA5 0x5A, the two bytes of the attempt counter, the two
  bytes of the success counter, the four bytes of the accumulated drift and two
  reserved zero bytes. Loading what was saved restores the three values, for every
  sync state; loading from a RAM whose first two bytes are not the magic number
  changes nothing, so a freshly constructed manager keeps its zero counters.
\<close>

theorem persisted_state_round_trip:
  "map (savePersistedData True m dev) [8 ..< 20] = persisted_bytes m \<and>
   length (persisted_bytes m) = 12 \<and>
   take 2 (persisted_bytes m) = [0xA5, 0x5A] \<and>
   be_word (take 2 (drop 2 (persisted_bytes m))) = syncAttempts m \<and>
   be_word (take 2 (drop 4 (persisted_bytes m))) = successfulSyncs m \<and>
   be_word (take 4 (drop 6 (persisted_bytes m))) = totalDriftSeconds m \<and>
   drop 10 (persisted_bytes m) = [0, 0] \<and>
   loadPersistedData True (savePersistedData True m dev) m0 =
     m0\<lparr>syncAttempts := syncAttempts m, successfulSyncs := successfulSyncs m,
        totalDriftSeconds := totalDriftSeconds m\<rparr> \<and>
   (dev 8 \<noteq> 0xA5 \<or> dev 9 \<noteq> 0x5A \<longrightarrow>
      loadPersistedData ok dev m0 = m0 \<and>
      syncAttempts (loadPersistedData ok dev RTCTimeManager_new) = 0 \<and>
      successfulSyncs (loadPersistedData ok dev RTCTimeManager_new) = 0 \<and>
      totalDriftSeconds (loadPersistedData ok dev RTCTimeManager_new) = 0)"
proof -
  have bad: "dev 8 \<noteq> 0xA5 \<or> dev 9 \<noteq> 0x5A \<longrightarrow>
      loadPersistedData ok dev m0 = m0 \<and>
      syncAttempts (loadPersistedData ok dev RTCTimeManager_new) = 0 \<and>
      successfulSyncs (loadPersistedData ok dev RTCTimeManager_new) = 0 \<and>
      totalDriftSeconds (loadPersistedData ok dev RTCTimeManager_new) = 0"
    by (auto simp add: load_bad_magic RTCTimeManager_new_def)
  from saved [of m dev] layout [of m] load_save [of m dev m0] bad show ?thesis
    by blast
qed

text \<open>The record of a concrete state, and its reload into a fresh manager.\<close>

theorem persisted_state_round_trip_witness:
  "map (savePersistedData True example_stats (\<lambda>a. 0)) [8 ..< 20] =
     [0xA5, 0x5A, 0x01, 0x02, 0x01, 0x01, 0x01, 0x02, 0x03, 0x04, 0, 0] \<and>
   loadPersistedData True (savePersistedData True example_stats (\<lambda>a. 0)) RTCTimeManager_new =
     example_stats \<and>
   loadPersistedData True (\<lambda>a. 0) RTCTimeManager_new = RTCTimeManager_new"
  using persisted_state_round_trip [of example_stats "\<lambda>a. 0" RTCTimeManager_new True]
  by (simp add: example_stats_def RTCTimeManager_new_def persisted_bytes_def)

text \<open>
  C8. The claim asks \<open>setTimeFromNetwork\<close> to accept the cellular module's format
  YY/MM/DD,HH:MM:SS+ZZ as well as ISO 8601. The code accepts the ISO form, but on the
  string the cellular module reports it fails to parse and returns failure (leaving
  the state as it was).
\<close>

theorem cellular_time_format_rejected:
  "parseTimeString ''24/07/29,12:34:56+04'' = None \<and>
   setTimeFromNetwork e ''24/07/29,12:34:56+04'' (m, dev) = (False, m, dev) \<and>
   parseTimeString ''2024-07-29T12:00:05'' =
     Some \<lparr>seconds = 5, minutes = 0, hours = 12, dayOfWeek = 1, date = 29, month = 7,
           year = 24\<rparr>"
  by (simp add: parse_cell parse_failure parse_iso)


section \<open>Properties of the power manager\<close>

lemma control_events [simp]:
  "events (controlPeripheralPower p en s) = events s @ [PeripheralPower p en]"
  by (simp add: controlPeripheralPower_def Let_def emit_def)

lemma control_frame [simp]:
  "pm_initialized (controlPeripheralPower p en s) = pm_initialized s"
  "esp32 (controlPeripheralPower p en s) = esp32 s"
  "emergencyMode (controlPeripheralPower p en s) = emergencyMode s"
  "powerConfig (controlPeripheralPower p en s) = powerConfig s"
  "external5V (peripheralConfig (controlPeripheralPower p en s)) = external5V (peripheralConfig s)"
  by (simp_all add: controlPeripheralPower_def Let_def emit_def)

lemma control_flags [simp]:
  "wifi (peripheralConfig (controlPeripheralPower p en s)) =
     (if p = ''wifi'' \<and> \<not> esp32 s then en else wifi (peripheralConfig s))"
  "bluetooth (peripheralConfig (controlPeripheralPower p en s)) =
     (if p = ''bluetooth'' \<and> \<not> esp32 s then en else bluetooth (peripheralConfig s))"
  "cellular (peripheralConfig (controlPeripheralPower p en s)) =
     (if p = ''cellular'' \<and> \<not> esp32 s then en else cellular (peripheralConfig s))"
  "sdcard (peripheralConfig (controlPeripheralPower p en s)) =
     (if p = ''sdcard'' then en else sdcard (peripheralConfig s))"
  "sensors (peripheralConfig (controlPeripheralPower p en s)) =
     (if p = ''sensors'' then en else sensors (peripheralConfig s))"
  by (simp_all add: controlPeripheralPower_def Let_def emit_def)

lemma supply_simps [simp]:
  "events (set5VSupply en s) = events s @ [Supply5V en]"
  "pm_initialized (set5VSupply en s) = pm_initialized s"
  "esp32 (set5VSupply en s) = esp32 s"
  "emergencyMode (set5VSupply en s) = emergencyMode s"
  "powerConfig (set5VSupply en s) = powerConfig s"
  "peripheralConfig (set5VSupply en s) = (peripheralConfig s)\<lparr>external5V := en\<rparr>"
  by (simp_all add: set5VSupply_def emit_def)

lemma emit_simps [simp]:
  "events (emit e s) = events s @ [e]"
  "pm_initialized (emit e s) = pm_initialized s"
  "esp32 (emit e s) = esp32 s"
  "emergencyMode (emit e s) = emergencyMode s"
  "powerConfig (emit e s) = powerConfig s"
  "peripheralConfig (emit e s) = peripheralConfig s"
  by (simp_all add: emit_def)

lemma events_enable:
  "events (enablePeripherals s) =
     events s @ (if pm_initialized s then power_up_trace (peripheralConfig s) else [])"
  by (simp add: enablePeripherals_def Let_def
      power_up_trace_def power_up_order_def configured_def)

lemma events_disable:
  "events (disablePeripherals s) =
     events s @ (if pm_initialized s then power_down_trace (peripheralConfig s) else [])"
  by (simp add: disablePeripherals_def Let_def
      power_down_trace_def power_up_order_def configured_def)


lemma enable_flags:
  "wifi (peripheralConfig (enablePeripherals s)) = wifi (peripheralConfig s)"
  "bluetooth (peripheralConfig (enablePeripherals s)) = bluetooth (peripheralConfig s)"
  "cellular (peripheralConfig (enablePeripherals s)) = cellular (peripheralConfig s)"
  "sdcard (peripheralConfig (enablePeripherals s)) = sdcard (peripheralConfig s)"
  "sensors (peripheralConfig (enablePeripherals s)) = sensors (peripheralConfig s)"
  "pm_initialized (enablePeripherals s) = pm_initialized s"
  by (simp_all add: enablePeripherals_def Let_def)

lemma power_down_trace_enable:
  "power_down_trace (peripheralConfig (enablePeripherals s)) = power_down_trace (peripheralConfig s)"
  by (simp add: power_down_trace_def power_up_order_def configured_def enable_flags)

lemma requested_sleeps_append:
  "requested_sleeps (xs @ ys) = requested_sleeps xs @ requested_sleeps ys"
  by (induction xs rule: requested_sleeps.induct) simp_all

lemma resetWatchdog_simps [simp]:
  "requested_sleeps (events (resetWatchdog s)) = requested_sleeps (events s)"
  "pm_initialized (resetWatchdog s) = pm_initialized s"
  "emergencyMode (resetWatchdog s) = emergencyMode s"
  "powerConfig (resetWatchdog s) = powerConfig s"
  "peripheralConfig (resetWatchdog s) = peripheralConfig s"
  by (simp_all add: resetWatchdog_def requested_sleeps_append)

lemma prepareSleep_simps [simp]:
  "requested_sleeps (events (prepareSleep deep s)) = requested_sleeps (events s)"
  "pm_initialized (prepareSleep deep s) = pm_initialized s"
  "emergencyMode (prepareSleep deep s) = emergencyMode s"
  "powerConfig (prepareSleep deep s) = powerConfig s"
  "peripheralConfig (prepareSleep deep s) = peripheralConfig s"
  by (simp_all add: prepareSleep_def Let_def requested_sleeps_append)

lemma restoreFromSleep_simps [simp]:
  "requested_sleeps (events (restoreFromSleep deep c s)) = requested_sleeps (events s)"
  "pm_initialized (restoreFromSleep deep c s) = pm_initialized s"
  "emergencyMode (restoreFromSleep deep c s) = emergencyMode s"
  "powerConfig (restoreFromSleep deep c s) = powerConfig s"
  "peripheralConfig (restoreFromSleep deep c s) = peripheralConfig s"
  by (simp_all add: restoreFromSleep_def updatePowerStats_wakeup_def Let_def)

lemma enterDeepSleep_sleeps:
  "requested_sleeps (events (enterDeepSleep ev d w s)) =
     requested_sleeps (events s) @
     (if pm_initialized s then [validateSleepDuration (powerConfig s) d] else [])"
  by (simp add: enterDeepSleep_def Let_def requested_sleeps_append)

lemma enterDeepSleep_frame [simp]:
  "emergencyMode (enterDeepSleep ev d w s) = emergencyMode s"
  "peripheralConfig (enterDeepSleep ev d w s) = peripheralConfig s"
  "powerConfig (enterDeepSleep ev d w s) = powerConfig s"
  by (simp_all add: enterDeepSleep_def Let_def)

lemma validateSleepDuration_clamp:
  "(d < minSleepDuration cfg \<longrightarrow> validateSleepDuration cfg d = minSleepDuration cfg) \<and>
   (minSleepDuration cfg \<le> maxSleepDuration cfg \<longrightarrow> d > maxSleepDuration cfg \<longrightarrow>
      validateSleepDuration cfg d = maxSleepDuration cfg) \<and>
   (minSleepDuration cfg \<le> d \<longrightarrow> d \<le> maxSleepDuration cfg \<longrightarrow>
      validateSleepDuration cfg d = d)"
  by (auto simp add: validateSleepDuration_def)

lemma configurePeripherals_simps [simp]:
  "peripheralConfig (configurePeripherals c s) = c"
  "emergencyMode (configurePeripherals c s) = emergencyMode s"
  "pm_initialized (configurePeripherals c s) = pm_initialized s"
  "powerConfig (configurePeripherals c s) = powerConfig s"
  by (simp_all add: configurePeripherals_def Let_def)

lemma enterEmergencyMode_effect:
  "emergencyMode (enterEmergencyMode ev r s)"
  "\<not> emergencyMode s \<Longrightarrow> peripheralConfig (enterEmergencyMode ev r s) = emergencyConfig"
  by (simp_all add: enterEmergencyMode_def Let_def)

lemma low_battery_events:
  "events (configurePeripherals ((peripheralConfig s)\<lparr>wifi := False, bluetooth := False\<rparr>) s) =
     events s @
     (if wifi (peripheralConfig s) then [PeripheralPower ''wifi'' False] else []) @
     (if bluetooth (peripheralConfig s) then [PeripheralPower ''bluetooth'' False] else [])"
  by (simp add: configurePeripherals_def Let_def)

lemma example_pm_config:
  "criticalBatteryThreshold (powerConfig example_pm) = 5"
  "lowBatteryThreshold (powerConfig example_pm) = 15"
  "emergencyShutdownEnabled (powerConfig example_pm)"
  "\<not> emergencyMode example_pm"
  "pm_initialized example_pm"
  "peripheralConfig example_pm =
     \<lparr>wifi = True, bluetooth = True, cellular = False, sdcard = True, sensors = False,
      external5V = False, rtc = True, watchdog = True\<rparr>"
  "events example_pm = []"
  "minSleepDuration (powerConfig example_pm) = 1000000"
  "maxSleepDuration (powerConfig example_pm) = 3600000000"
  by (simp_all add: example_pm_def PowerManager_new_def MIN_SLEEP_DURATION_def
      MAX_SLEEP_DURATION_def)

text \<open>
  C1. For every battery percentage p: at or below the critical threshold with
  emergency shutdown enabled, \<open>checkBatteryLevel\<close> invokes \<open>enterEmergencyMode\<close> and
  returns false; at or below the critical threshold with emergency shutdown disabled
  it returns true; above the critical and at or below the low threshold it calls
  \<open>configurePeripherals\<close> with WiFi and Bluetooth off and returns true, without
  touching the emergency flag; above the low threshold (the critical threshold not
  being above the low one) it returns true and changes nothing. Both thresholds are
  inclusive.
\<close>

theorem battery_policy:
  "(p \<le> criticalBatteryThreshold (powerConfig s) \<and> emergencyShutdownEnabled (powerConfig s) \<longrightarrow>
      checkBatteryLevel ev p s = (False, enterEmergencyMode ev ''Critical battery level'' s) \<and>
      emergencyMode (snd (checkBatteryLevel ev p s))) \<and>
   (p \<le> criticalBatteryThreshold (powerConfig s) \<and> \<not> emergencyShutdownEnabled (powerConfig s) \<longrightarrow>
      checkBatteryLevel ev p s = (True, s)) \<and>
   (criticalBatteryThreshold (powerConfig s) < p \<and> p \<le> lowBatteryThreshold (powerConfig s) \<longrightarrow>
      checkBatteryLevel ev p s =
        (True, configurePeripherals ((peripheralConfig s)\<lparr>wifi := False, bluetooth := False\<rparr>) s) \<and>
      peripheralConfig (snd (checkBatteryLevel ev p s)) =
        (peripheralConfig s)\<lparr>wifi := False, bluetooth := False\<rparr> \<and>
      emergencyMode (snd (checkBatteryLevel ev p s)) = emergencyMode s \<and>
      events (snd (checkBatteryLevel ev p s)) =
        events s @
        (if wifi (peripheralConfig s) then [PeripheralPower ''wifi'' False] else []) @
        (if bluetooth (peripheralConfig s) then [PeripheralPower ''bluetooth'' False] else [])) \<and>
   (criticalBatteryThreshold (powerConfig s) \<le> lowBatteryThreshold (powerConfig s) \<and>
    lowBatteryThreshold (powerConfig s) < p \<longrightarrow>
      checkBatteryLevel ev p s = (True, s))"
proof -
  have a: "p \<le> criticalBatteryThreshold (powerConfig s) \<and> emergencyShutdownEnabled (powerConfig s) \<longrightarrow>
      checkBatteryLevel ev p s = (False, enterEmergencyMode ev ''Critical battery level'' s) \<and>
      emergencyMode (snd (checkBatteryLevel ev p s))"
    by (simp add: checkBatteryLevel_def enterEmergencyMode_effect)
  have b: "p \<le> criticalBatteryThreshold (powerConfig s) \<and> \<not> emergencyShutdownEnabled (powerConfig s) \<longrightarrow>
      checkBatteryLevel ev p s = (True, s)"
    by (simp add: checkBatteryLevel_def)
  have c: "criticalBatteryThreshold (powerConfig s) < p \<and> p \<le> lowBatteryThreshold (powerConfig s) \<longrightarrow>
      checkBatteryLevel ev p s =
        (True, configurePeripherals ((peripheralConfig s)\<lparr>wifi := False, bluetooth := False\<rparr>) s) \<and>
      peripheralConfig (snd (checkBatteryLevel ev p s)) =
        (peripheralConfig s)\<lparr>wifi := False, bluetooth := False\<rparr> \<and>
      emergencyMode (snd (checkBatteryLevel ev p s)) = emergencyMode s \<and>
      events (snd (checkBatteryLevel ev p s)) =
        events s @
        (if wifi (peripheralConfig s) then [PeripheralPower ''wifi'' False] else []) @
        (if bluetooth (peripheralConfig s) then [PeripheralPower ''bluetooth'' False] else [])"
    by (simp add: checkBatteryLevel_def low_battery_events)
  have d: "criticalBatteryThreshold (powerConfig s) \<le> lowBatteryThreshold (powerConfig s) \<and>
    lowBatteryThreshold (powerConfig s) < p \<longrightarrow> checkBatteryLevel ev p s = (True, s)"
    by (simp add: checkBatteryLevel_def)
  from a b c d show ?thesis
    by blast
qed

text \<open>The default thresholds, 5 and 15: exactly 5, just above 5, exactly 15, and 50 percent.\<close>

theorem battery_policy_witness:
  "fst (checkBatteryLevel example_sleep_env 5 example_pm) = False \<and>
   emergencyMode (snd (checkBatteryLevel example_sleep_env 5 example_pm)) \<and>
   fst (checkBatteryLevel example_sleep_env (501 / 100) example_pm) = True \<and>
   emergencyMode (snd (checkBatteryLevel example_sleep_env (501 / 100) example_pm)) = False \<and>
   fst (checkBatteryLevel example_sleep_env 15 example_pm) = True \<and>
   peripheralConfig (snd (checkBatteryLevel example_sleep_env 15 example_pm)) =
     \<lparr>wifi = False, bluetooth = False, cellular = False, sdcard = True, sensors = False,
      external5V = False, rtc = True, watchdog = True\<rparr> \<and>
   events (snd (checkBatteryLevel example_sleep_env 15 example_pm)) =
     [PeripheralPower ''wifi'' False, PeripheralPower ''bluetooth'' False] \<and>
   emergencyMode (snd (checkBatteryLevel example_sleep_env 15 example_pm)) = False \<and>
   checkBatteryLevel example_sleep_env 50 example_pm = (True, example_pm)"
proof -
  have a: "fst (checkBatteryLevel example_sleep_env 5 example_pm) = False \<and>
           emergencyMode (snd (checkBatteryLevel example_sleep_env 5 example_pm))"
    using battery_policy [of 5 example_pm example_sleep_env]
    by (auto simp add: example_pm_config)
  have b: "fst (checkBatteryLevel example_sleep_env (501 / 100) example_pm) = True \<and>
           emergencyMode (snd (checkBatteryLevel example_sleep_env (501 / 100) example_pm)) = False"
    using battery_policy [of "501 / 100" example_pm example_sleep_env]
    by (auto simp add: example_pm_config)
  have c: "fst (checkBatteryLevel example_sleep_env 15 example_pm) = True \<and>
           peripheralConfig (snd (checkBatteryLevel example_sleep_env 15 example_pm)) =
             \<lparr>wifi = False, bluetooth = False, cellular = False, sdcard = True, sensors = False,
              external5V = False, rtc = True, watchdog = True\<rparr> \<and>
           events (snd (checkBatteryLevel example_sleep_env 15 example_pm)) =
             [PeripheralPower ''wifi'' False, PeripheralPower ''bluetooth'' False] \<and>
           emergencyMode (snd (checkBatteryLevel example_sleep_env 15 example_pm)) = False"
    using battery_policy [of 15 example_pm example_sleep_env]
    by (auto simp add: example_pm_config)
  have d: "checkBatteryLevel example_sleep_env 50 example_pm = (True, example_pm)"
    using battery_policy [of 50 example_pm example_sleep_env]
    by (auto simp add: example_pm_config)
  from a b c d show ?thesis
    by blast
qed

text \<open>
  C10. For every battery percentage at or below the critical threshold, when emergency
  shutdown is disabled, \<open>checkBatteryLevel\<close> returns true and leaves the controller as
  it was: no peripheral is switched, the peripheral configuration is unchanged and
  emergency mode is not entered, although the percentage is also below the low
  threshold.
\<close>

theorem critical_battery_without_shutdown:
  assumes "p \<le> criticalBatteryThreshold (powerConfig s)"
    and "\<not> emergencyShutdownEnabled (powerConfig s)"
  shows "checkBatteryLevel ev p s = (True, s) \<and>
         peripheralConfig (snd (checkBatteryLevel ev p s)) = peripheralConfig s \<and>
         emergencyMode (snd (checkBatteryLevel ev p s)) = emergencyMode s \<and>
         events (snd (checkBatteryLevel ev p s)) = events s"
  using assms by (simp add: checkBatteryLevel_def)

text \<open>Three percent with emergency shutdown disabled.\<close>

theorem critical_battery_without_shutdown_witness:
  "(3::real) \<le> criticalBatteryThreshold (powerConfig example_pm_no_shutdown) \<and>
   3 \<le> lowBatteryThreshold (powerConfig example_pm_no_shutdown) \<and>
   \<not> emergencyShutdownEnabled (powerConfig example_pm_no_shutdown) \<and>
   wifi (peripheralConfig example_pm_no_shutdown) \<and>
   checkBatteryLevel example_sleep_env 3 example_pm_no_shutdown = (True, example_pm_no_shutdown)"
  using critical_battery_without_shutdown [of 3 example_pm_no_shutdown example_sleep_env]
  by (simp add: example_pm_no_shutdown_def example_pm_config)

text \<open>
  C2. For every configured subset of peripherals, an initialized controller's
  \<open>enablePeripherals\<close> asks for the 5V rail first, waits for it to settle, then for
  WiFi, Bluetooth, Cellular, SD card and Sensors in this order, taking those that are
  configured; \<open>disablePeripherals\<close> asks for the same peripherals in the exact reverse
  order and switches the 5V rail off last; and the script of the one followed by the
  other produces the two traces one after the other. A controller that is not
  initialized asks for nothing.
\<close>

theorem peripheral_sequencing:
  "events (enablePeripherals s) =
     events s @ (if pm_initialized s then power_up_trace (peripheralConfig s) else []) \<and>
   events (disablePeripherals s) =
     events s @ (if pm_initialized s then power_down_trace (peripheralConfig s) else []) \<and>
   events (disablePeripherals (enablePeripherals s)) =
     events s @
     (if pm_initialized s
      then power_up_trace (peripheralConfig s) @ power_down_trace (peripheralConfig s) else [])"
  by (simp add: events_enable events_disable enable_flags power_down_trace_enable)

text \<open>WiFi, Bluetooth and the SD card configured.\<close>

theorem peripheral_sequencing_witness:
  "pm_initialized example_pm \<and>
   events (enablePeripherals example_pm) =
     [Supply5V True, SettleWait 1000, PeripheralPower ''wifi'' True,
      PeripheralPower ''bluetooth'' True, PeripheralPower ''sdcard'' True] \<and>
   events (disablePeripherals example_pm) =
     [PeripheralPower ''sdcard'' False, PeripheralPower ''bluetooth'' False,
      PeripheralPower ''wifi'' False, Supply5V False]"
  using peripheral_sequencing [of example_pm]
  by (simp add: example_pm_config power_up_trace_def power_down_trace_def power_up_order_def
      configured_def)

text \<open>
  C3. For every requested duration d, \<open>enterSleep\<close> and \<open>enterDeepSleep\<close> on an
  initialized controller hand exactly one duration to the platform's deep-sleep
  primitive, the validated one: minSleepDuration when d is below it, maxSleepDuration
  when d is above it (the bounds being in order), and d itself when d lies between
  the bounds. No duration is rejected.
\<close>

theorem sleep_duration_clamped:
  "requested_sleeps (events (enterSleep ev d s)) =
     requested_sleeps (events s) @
     (if pm_initialized s then [validateSleepDuration (powerConfig s) d] else []) \<and>
   requested_sleeps (events (enterDeepSleep ev d w s)) =
     requested_sleeps (events s) @
     (if pm_initialized s then [validateSleepDuration (powerConfig s) d] else []) \<and>
   (d < minSleepDuration (powerConfig s) \<longrightarrow>
      validateSleepDuration (powerConfig s) d = minSleepDuration (powerConfig s)) \<and>
   (minSleepDuration (powerConfig s) \<le> maxSleepDuration (powerConfig s) \<longrightarrow>
    d > maxSleepDuration (powerConfig s) \<longrightarrow>
      validateSleepDuration (powerConfig s) d = maxSleepDuration (powerConfig s)) \<and>
   (minSleepDuration (powerConfig s) \<le> d \<longrightarrow> d \<le> maxSleepDuration (powerConfig s) \<longrightarrow>
      validateSleepDuration (powerConfig s) d = d)"
  using validateSleepDuration_clamp [of d "powerConfig s"]
  by (simp add: enterSleep_def enterDeepSleep_sleeps)

text \<open>Five microseconds, two hours and five minutes against the bounds of one second and one hour.\<close>

theorem sleep_duration_clamped_witness:
  "pm_initialized example_pm \<and>
   minSleepDuration (powerConfig example_pm) \<le> maxSleepDuration (powerConfig example_pm) \<and>
   requested_sleeps (events (enterSleep example_sleep_env 5 example_pm)) = [1000000] \<and>
   requested_sleeps (events (enterSleep example_sleep_env 7200000000 example_pm)) = [3600000000] \<and>
   requested_sleeps (events (enterSleep example_sleep_env 300000000 example_pm)) = [300000000]"
  using sleep_duration_clamped [of example_sleep_env 5 example_pm 0]
    sleep_duration_clamped [of example_sleep_env 7200000000 example_pm 0]
    sleep_duration_clamped [of example_sleep_env 300000000 example_pm 0]
  by (simp add: example_pm_config)

end
